theory Spec2Isabelle
  imports Main "HOL-Library.Multiset"
begin

section \<open>Strings\<close>

text \<open>
  A JavaScript string is a sequence of UTF-16 code units. The model covers the strings
  whose code units are below 256 (Latin-1), one \<^typ>\<open>char\<close> per code unit. On these,
  \<^verbatim>\<open>String.prototype.toLowerCase\<close> maps each unit to one unit: \<^verbatim>\<open>A-Z\<close> and the
  upper-case letters \<^verbatim>\<open>U+00C0..U+00DE\<close> (without the multiplication sign
  \<^verbatim>\<open>U+00D7\<close>) move up by 32, every other unit stays. \<^verbatim>\<open>String.prototype.trim\<close>
  removes white space and line terminators at both ends; below 256 these are
  \<^verbatim>\<open>U+0009..U+000D\<close>, the space and the no-break space \<^verbatim>\<open>U+00A0\<close>.
\<close>

definition toLowerChar :: "char \<Rightarrow> char" where
  "toLowerChar c =
     (let n = (of_char c :: nat)
      in if (65 \<le> n \<and> n \<le> 90) \<or> (192 \<le> n \<and> n \<le> 222 \<and> n \<noteq> 215)
         then char_of (n + 32) else c)"

definition toLowerCase :: "string \<Rightarrow> string" where
  "toLowerCase s = map toLowerChar s"

definition startsWith :: "string \<Rightarrow> string \<Rightarrow> bool" where
  "startsWith s p = (take (length p) s = p)"

definition substring :: "string \<Rightarrow> nat \<Rightarrow> string" where
  "substring s n = drop n s"

definition isWhiteSpace :: "char \<Rightarrow> bool" where
  "isWhiteSpace c =
     (let n = (of_char c :: nat) in (9 \<le> n \<and> n \<le> 13) \<or> n = 32 \<or> n = 160)"

definition trim :: "string \<Rightarrow> string" where
  "trim s = rev (dropWhile isWhiteSpace (rev (dropWhile isWhiteSpace s)))"

section \<open>The prefix router (server/services/openai.ts)\<close>

record RoutingConfig =
  cfg_model :: string
  cfg_systemPrompt :: "string option"

text \<open>
  \<^verbatim>\<open>modelRouting\<close> is an object literal with four string keys;
  \<^verbatim>\<open>Object.entries\<close> lists them in insertion order, so the table is an association
  list in the order of the source.
\<close>

definition modelRouting :: "(string \<times> RoutingConfig) list" where
  "modelRouting =
     [(''code:'', \<lparr>cfg_model = ''gpt-4o'', cfg_systemPrompt = Some
        ''You are an expert software developer and architect. Provide detailed, accurate code examples and explanations. Focus on best practices, security, and maintainability.''\<rparr>),
      (''research:'', \<lparr>cfg_model = ''gpt-4o'', cfg_systemPrompt = Some
        ''You are a research assistant. Provide well-researched, accurate information with proper context and citations when possible. Be thorough and analytical.''\<rparr>),
      (''creative:'', \<lparr>cfg_model = ''gpt-4o'', cfg_systemPrompt = Some
        ''You are a creative writing assistant. Help with storytelling, creative projects, brainstorming, and artistic endeavors. Be imaginative and inspiring.''\<rparr>),
      (''analysis:'', \<lparr>cfg_model = ''gpt-4o'', cfg_systemPrompt = Some
        ''You are a data analyst and strategic thinker. Provide detailed analysis, break down complex problems, and offer insights based on available information.''\<rparr>)]"

record Routed =
  model :: string
  systemPrompt :: "string option"
  cleanedMessage :: string

text \<open>
  The \<^verbatim>\<open>for\<close> loop of \<^verbatim>\<open>getModelAndPrompt\<close> over the entries: the first entry
  whose prefix starts the lower-cased message returns; when the entries are used up the
  default is returned.
\<close>

fun routeLoop :: "(string \<times> RoutingConfig) list \<Rightarrow> string \<Rightarrow> string \<Rightarrow> Routed" where
  "routeLoop [] lowercaseMessage message =
     \<lparr>model = ''gpt-4o'', systemPrompt = None, cleanedMessage = message\<rparr>"
| "routeLoop ((prefix, config) # rest) lowercaseMessage message =
     (if startsWith lowercaseMessage prefix
      then \<lparr>model = cfg_model config, systemPrompt = cfg_systemPrompt config,
            cleanedMessage = trim (substring message (length prefix))\<rparr>
      else routeLoop rest lowercaseMessage message)"

definition getModelAndPrompt :: "string \<Rightarrow> Routed" where
  "getModelAndPrompt message = routeLoop modelRouting (toLowerCase message) message"

text \<open>
  The specification's words for the routing condition: the message starts with the
  prefix when case is ignored, that is, its first \<open>length p\<close> characters are there and
  equal \<open>p\<close> up to case.
\<close>

definition startsWithIgnoringCase :: "string \<Rightarrow> string \<Rightarrow> bool" where
  "startsWithIgnoringCase m p =
     (length p \<le> length m \<and> toLowerCase (take (length p) m) = toLowerCase p)"

section \<open>The conversation store (shared/schema.ts, server/storage.ts)\<close>

text \<open>
  Rows of the tables \<^verbatim>\<open>conversations\<close> and \<^verbatim>\<open>messages\<close>. A stored identifier is
  the text the database prints for a uuid, timestamps are counted in clock ticks, the
  token count is an integer. The role column holds \<^verbatim>\<open>'user'\<close> or
  \<^verbatim>\<open>'assistant'\<close>; \<^verbatim>\<open>'system'\<close> only occurs in requests to the completion provider.
\<close>

datatype Role = User | Assistant | System

record Conversation =
  conv_id :: string
  conv_userId :: string
  conv_title :: string
  conv_model :: string
  conv_createdAt :: nat
  conv_updatedAt :: nat

record Message =
  msg_id :: string
  msg_conversationId :: string
  msg_role :: Role
  msg_content :: string
  msg_model :: "string option"
  msg_tokenCount :: "int option"
  msg_createdAt :: nat

text \<open>
  \<^verbatim>\<open>InsertMessage\<close>: the conversation identifier is the text the caller passes, as
  it stands in the URL.
\<close>

record InsertMessage =
  ins_conversationId :: string
  ins_role :: Role
  ins_content :: string
  ins_model :: "string option"
  ins_tokenCount :: "int option"

text \<open>
  The fields of \<^verbatim>\<open>Partial<InsertConversation>\<close> without \<^verbatim>\<open>userId\<close>: a change of
  owner refers to the table of users, which is not part of this model.
\<close>

record ConversationUpdates =
  upd_title :: "string option"
  upd_model :: "string option"

text \<open>A table is the list of its rows in the order they were inserted.\<close>

record Database =
  conversations :: "Conversation list"
  messages :: "Message list"

datatype js_error = Error string

subsection \<open>What the database does with the values of a query\<close>

text \<open>
  The columns are declared in shared/schema.ts; what the database (PostgreSQL) does with
  a value that does not fit the column is not in the repository. A query whose value is
  refused rejects the promise, so the caller's \<^verbatim>\<open>await\<close> throws.
  \<^item> \<^verbatim>\<open>text\<close> and \<^verbatim>\<open>varchar\<close> refuse a string that holds the code unit 0.
  \<^item> \<^verbatim>\<open>integer\<close> refuses a number outside 32 bits. (A number that is not an integer
    is refused too; token counts are integers in this model.)
  \<^item> \<^verbatim>\<open>uuid\<close> refuses a text that is not a spelling of a uuid, and reads the
    spellings of one uuid as the same value. Which texts are spellings is a parameter
    of the model: \<open>uuid_in\<close> gives the text the database prints for the value, or
    nothing.
  \<^item> \<^verbatim>\<open>ORDER BY\<close> leaves the order of rows with equal keys open. The order in which
    the selected rows come back is a parameter as well: \<open>order_rows\<close>. The theorems say
    what they assume of it.
\<close>

definition validText :: "string \<Rightarrow> bool" where
  "validText s = (CHR 0x00 \<notin> set s)"

definition validOptionalText :: "string option \<Rightarrow> bool" where
  "validOptionalText v = (case v of None \<Rightarrow> True | Some s \<Rightarrow> validText s)"

definition validInteger :: "int option \<Rightarrow> bool" where
  "validInteger v = (case v of None \<Rightarrow> True | Some n \<Rightarrow> - 2147483648 \<le> n \<and> n \<le> 2147483647)"

record Engine =
  uuid_in :: "string \<Rightarrow> string option"
  order_rows :: "Message list \<Rightarrow> Message list"

subsection \<open>The operations of \<^verbatim>\<open>DatabaseStorage\<close>\<close>

text \<open>
  \<^verbatim>\<open>getConversation\<close>: the first row with this identifier and this owner, or
  \<^verbatim>\<open>undefined\<close>. The query throws when the identifier is not a uuid or the owner is
  not a text the database takes.
\<close>

definition getConversation ::
  "Engine \<Rightarrow> Database \<Rightarrow> string \<Rightarrow> string \<Rightarrow> js_error + Conversation option" where
  "getConversation eng d ident userId =
     (case uuid_in eng ident of
        None \<Rightarrow> Inl (Error ''invalid input syntax for type uuid'')
      | Some i \<Rightarrow>
          if \<not> validText userId
          then Inl (Error ''invalid byte sequence for encoding UTF8: 0x00'')
          else Inr (find (\<lambda>c. conv_id c = i \<and> conv_userId c = userId) (conversations d)))"

text \<open>
  The second query of \<^verbatim>\<open>getConversationMessages\<close>: the messages of the conversation,
  ordered by \<^verbatim>\<open>createdAt\<close>.
\<close>

definition selectMessages :: "Engine \<Rightarrow> Database \<Rightarrow> string \<Rightarrow> js_error + Message list" where
  "selectMessages eng d conversationId =
     (case uuid_in eng conversationId of
        None \<Rightarrow> Inl (Error ''invalid input syntax for type uuid'')
      | Some i \<Rightarrow>
          Inr (order_rows eng (filter (\<lambda>m. msg_conversationId m = i) (messages d))))"

text \<open>
  \<^verbatim>\<open>getConversationMessages\<close> first asks for the conversation and throws when it is
  not the user's, then selects the messages.
\<close>

definition getConversationMessages ::
  "Engine \<Rightarrow> Database \<Rightarrow> string \<Rightarrow> string \<Rightarrow> js_error + Message list" where
  "getConversationMessages eng d conversationId userId =
     (case getConversation eng d conversationId userId of
        Inl err \<Rightarrow> Inl err
      | Inr None \<Rightarrow> Inl (Error ''Conversation not found or access denied'')
      | Inr (Some conversation) \<Rightarrow> selectMessages eng d conversationId)"

text \<open>
  \<^verbatim>\<open>addMessage\<close> inserts one row. The identifier is the random uuid the database
  draws and the timestamp is \<^verbatim>\<open>new Date()\<close>; both are arguments here. The insert
  is rejected when a value does not fit its column, when the primary key is taken, and
  when the conversation the row references does not exist.
\<close>

definition addMessage ::
  "Engine \<Rightarrow> Database \<Rightarrow> InsertMessage \<Rightarrow> string \<Rightarrow> nat \<Rightarrow> js_error + (Message \<times> Database)" where
  "addMessage eng d message ident now =
     (case uuid_in eng (ins_conversationId message) of
        None \<Rightarrow> Inl (Error ''invalid input syntax for type uuid'')
      | Some i \<Rightarrow>
          if \<not> validText (ins_content message) \<or> \<not> validOptionalText (ins_model message)
          then Inl (Error ''invalid byte sequence for encoding UTF8: 0x00'')
          else if \<not> validInteger (ins_tokenCount message)
          then Inl (Error ''value out of range for type integer'')
          else if ident \<in> set (map msg_id (messages d))
          then Inl (Error ''duplicate key value violates unique constraint'')
          else if i \<notin> set (map conv_id (conversations d))
          then Inl (Error ''insert or update violates foreign key constraint'')
          else
            let newMessage =
                  \<lparr>msg_id = ident, msg_conversationId = i,
                   msg_role = ins_role message, msg_content = ins_content message,
                   msg_model = ins_model message, msg_tokenCount = ins_tokenCount message,
                   msg_createdAt = now\<rparr>
            in Inr (newMessage, d\<lparr>messages := messages d @ [newMessage]\<rparr>))"

definition applyUpdates :: "ConversationUpdates \<Rightarrow> nat \<Rightarrow> Conversation \<Rightarrow> Conversation" where
  "applyUpdates updates now c =
     c\<lparr>conv_title := (case upd_title updates of None \<Rightarrow> conv_title c | Some t \<Rightarrow> t),
       conv_model := (case upd_model updates of None \<Rightarrow> conv_model c | Some m \<Rightarrow> m),
       conv_updatedAt := now\<rparr>"

text \<open>
  \<^verbatim>\<open>updateConversation\<close> rewrites every row with this identifier and owner and
  returns the first rewritten row, or \<^verbatim>\<open>undefined\<close>. It throws when a value does
  not fit its column.
\<close>

definition updateConversation ::
  "Engine \<Rightarrow> Database \<Rightarrow> string \<Rightarrow> string \<Rightarrow> ConversationUpdates \<Rightarrow> nat
     \<Rightarrow> js_error + (Conversation option \<times> Database)" where
  "updateConversation eng d ident userId updates now =
     (case uuid_in eng ident of
        None \<Rightarrow> Inl (Error ''invalid input syntax for type uuid'')
      | Some i \<Rightarrow>
          if \<not> validText userId \<or> \<not> validOptionalText (upd_title updates)
             \<or> \<not> validOptionalText (upd_model updates)
          then Inl (Error ''invalid byte sequence for encoding UTF8: 0x00'')
          else
            let hit = (\<lambda>c. conv_id c = i \<and> conv_userId c = userId)
            in Inr (map_option (applyUpdates updates now) (find hit (conversations d)),
                    d\<lparr>conversations :=
                         map (\<lambda>c. if hit c then applyUpdates updates now c else c)
                           (conversations d)\<rparr>))"

section \<open>The completion gateway (server/services/openai.ts)\<close>

record ChatMessage =
  chat_role :: Role
  chat_content :: string

text \<open>
  The arguments of \<^verbatim>\<open>openai.chat.completions.create\<close>. The temperature is a
  constant of the source (0.7 and 0.3); it is kept in tenths.
\<close>

record CreateParams =
  p_model :: string
  p_messages :: "ChatMessage list"
  p_temperature_tenths :: nat
  p_max_tokens :: nat

text \<open>
  What the provider call does: it throws an error with a message (a timeout, a provider
  error, a response that cannot be read), or it returns a response, of which the code
  reads the \<^verbatim>\<open>message.content\<close> of each choice (a string or \<^verbatim>\<open>null\<close>) and
  \<^verbatim>\<open>usage?.total_tokens\<close>.
\<close>

datatype ApiResult =
  ApiThrows string
| ApiResponse "string option list" "int option"

record GenResult =
  gen_content :: string
  gen_model :: string
  gen_tokenCount :: "int option"

text \<open>The request \<^verbatim>\<open>generateResponse\<close> builds (lines 67 to 88).\<close>

definition completionParams :: "string \<Rightarrow> ChatMessage list \<Rightarrow> CreateParams" where
  "completionParams userMessage conversationHistory =
     (let r = getModelAndPrompt userMessage;
          sys = (case systemPrompt r of
                   None \<Rightarrow> []
                 | Some p \<Rightarrow> if p = [] then [] else [\<lparr>chat_role = System, chat_content = p\<rparr>]);
          recentHistory =
            drop (length conversationHistory - 10) conversationHistory
      in \<lparr>p_model = model r,
          p_messages = sys @ recentHistory
             @ [\<lparr>chat_role = User, chat_content = cleanedMessage r\<rparr>],
          p_temperature_tenths = 7, p_max_tokens = 4000\<rparr>)"

text \<open>
  What \<^verbatim>\<open>generateResponse\<close> makes of the provider's answer (lines 90 to 101).
  \<^verbatim>\<open>response.choices[0]\<close> of an empty list is \<^verbatim>\<open>undefined\<close>, and reading
  \<^verbatim>\<open>.message\<close> of it throws a TypeError inside the \<^verbatim>\<open>try\<close>. \<^verbatim>\<open>content || ''\<close>
  turns \<^verbatim>\<open>null\<close> into the empty string.
\<close>

definition readCompletion :: "CreateParams \<Rightarrow> ApiResult \<Rightarrow> js_error + GenResult" where
  "readCompletion params answer =
     (let failed = (\<lambda>msg. Inl (Error (''Failed to generate AI response: '' @ msg)))
      in case answer of
           ApiThrows msg \<Rightarrow> failed msg
         | ApiResponse choices usage \<Rightarrow>
             (case choices of
                [] \<Rightarrow>
                  failed (''Cannot read properties of undefined (reading '' @ [CHR 0x27]
                          @ ''message'' @ [CHR 0x27] @ '')'')
              | c # cs \<Rightarrow>
                  Inr \<lparr>gen_content = (case c of None \<Rightarrow> [] | Some s \<Rightarrow> s),
                       gen_model = p_model params, gen_tokenCount = usage\<rparr>))"

text \<open>
  \<^verbatim>\<open>generateResponse\<close>. The provider is a function from the request to what the
  call does; the requests made are appended to a log.
\<close>

definition generateResponse ::
  "(CreateParams \<Rightarrow> ApiResult) \<Rightarrow> CreateParams list \<Rightarrow> string \<Rightarrow> ChatMessage list
     \<Rightarrow> (js_error + GenResult) \<times> CreateParams list" where
  "generateResponse create log userMessage conversationHistory =
     (let params = completionParams userMessage conversationHistory
      in (readCompletion params (create params), log @ [params]))"

definition titleParams :: "string \<Rightarrow> CreateParams" where
  "titleParams firstUserMessage =
     \<lparr>p_model = ''gpt-4o'',
      p_messages =
        [\<lparr>chat_role = System, chat_content =
            ''Generate a short, descriptive title (4-6 words) for a conversation based on the user'' @ [CHR 0x27] @ ''s first message. Do not use quotes or special characters.''\<rparr>,
         \<lparr>chat_role = User, chat_content = firstUserMessage\<rparr>],
      p_temperature_tenths = 3, p_max_tokens = 20\<rparr>"

text \<open>\<^verbatim>\<open>messages.find(m => m.role === 'user')?.content || ''\<close>.\<close>

definition firstUserMessage :: "ChatMessage list \<Rightarrow> string" where
  "firstUserMessage msgs =
     (case find (\<lambda>m. chat_role m = User) msgs of None \<Rightarrow> [] | Some m \<Rightarrow> chat_content m)"

text \<open>
  What \<^verbatim>\<open>generateTitle\<close> makes of the provider's answer: the trimmed content, and
  the fallback title when the call throws, when there is no choice to read (the
  \<^verbatim>\<open>catch\<close>), and when the content is \<^verbatim>\<open>null\<close> or blank.
\<close>

definition readTitle :: "ApiResult \<Rightarrow> string" where
  "readTitle answer =
     (case answer of
        ApiThrows msg \<Rightarrow> ''New Conversation''
      | ApiResponse choices usage \<Rightarrow>
          (case choices of
             [] \<Rightarrow> ''New Conversation''
           | c # cs \<Rightarrow>
               (case c of
                  None \<Rightarrow> ''New Conversation''
                | Some s \<Rightarrow> if trim s = [] then ''New Conversation'' else trim s)))"

text \<open>
  \<^verbatim>\<open>generateTitle\<close> returns a string on every path; without a user message it
  returns the fallback title and makes no request.
\<close>

definition generateTitle ::
  "(CreateParams \<Rightarrow> ApiResult) \<Rightarrow> CreateParams list \<Rightarrow> ChatMessage list
     \<Rightarrow> string \<times> CreateParams list" where
  "generateTitle create log msgs =
     (if firstUserMessage msgs = [] then (''New Conversation'', log)
      else (readTitle (create (titleParams (firstUserMessage msgs))),
            log @ [titleParams (firstUserMessage msgs)]))"

section \<open>The realtime hub (server/services/websocket.ts)\<close>

text \<open>
  The \<^verbatim>\<open>data\<close> field of a frame has type \<^verbatim>\<open>any\<close>. The hub never looks inside;
  the values the code puts there are listed, and what a client sent is kept as its text.
\<close>

datatype Payload =
  NoData
| ClientData string
| ConnectionData string string
| ErrorData string
| NewMessageData Message Message

text \<open>
  \<^verbatim>\<open>WebSocketMessage\<close>. The declared type of \<^verbatim>\<open>type\<close> is a union of four
  literals, but an inbound frame is whatever \<^verbatim>\<open>JSON.parse\<close> returned, so the field
  is a string here. The optional fields are \<^verbatim>\<open>undefined\<close> when \<open>None\<close>.
\<close>

record WebSocketMessage =
  ws_type :: string
  ws_conversationId :: "string option"
  ws_userId :: "string option"
  ws_data :: Payload

datatype ReadyState = CONNECTING | OPEN | CLOSING | CLOSED

text \<open>
  A socket: its \<^verbatim>\<open>readyState\<close> and the frames handed to \<^verbatim>\<open>ws.send\<close>, oldest
  first (\<^verbatim>\<open>JSON.stringify\<close> of a frame is the frame).
\<close>

record WebSocket =
  readyState :: ReadyState
  sent :: "WebSocketMessage list"

record Client =
  client_ws :: WebSocket
  client_userId :: string
  client_conversationId :: "string option"

text \<open>The registry \<^verbatim>\<open>clients\<close>, a \<^verbatim>\<open>Map\<close> from client identifier to entry.\<close>

type_synonym Hub = "string \<rightharpoonup> Client"

definition wsSend :: "Client \<Rightarrow> WebSocketMessage \<Rightarrow> Client" where
  "wsSend client message =
     client\<lparr>client_ws := (client_ws client)\<lparr>sent := sent (client_ws client) @ [message]\<rparr>\<rparr>"

definition sendToClient :: "Hub \<Rightarrow> string \<Rightarrow> WebSocketMessage \<Rightarrow> Hub" where
  "sendToClient clients clientId message =
     (case clients clientId of
        None \<Rightarrow> clients
      | Some client \<Rightarrow>
          if readyState (client_ws client) = OPEN
          then clients(clientId \<mapsto> wsSend client message)
          else clients)"

text \<open>
  \<^verbatim>\<open>broadcastToConversation\<close>: \<^verbatim>\<open>forEach\<close> over the registry. Every socket has a
  send queue of its own, so the entries are handled independently of each other.
\<close>

definition broadcastToConversation ::
  "Hub \<Rightarrow> string \<Rightarrow> WebSocketMessage \<Rightarrow> string option \<Rightarrow> Hub" where
  "broadcastToConversation clients conversationId message excludeClientId =
     (\<lambda>clientId.
        case clients clientId of
          None \<Rightarrow> None
        | Some client \<Rightarrow>
            if client_conversationId client = Some conversationId
               \<and> Some clientId \<noteq> excludeClientId
               \<and> readyState (client_ws client) = OPEN
            then Some (wsSend client message)
            else Some client)"

definition notifyNewMessage :: "Hub \<Rightarrow> string \<Rightarrow> Payload \<Rightarrow> Hub" where
  "notifyNewMessage clients conversationId messageData =
     broadcastToConversation clients conversationId
       \<lparr>ws_type = ''message'', ws_conversationId = Some conversationId,
        ws_userId = None, ws_data = messageData\<rparr>
       None"

text \<open>Truthiness of an optional string: \<^verbatim>\<open>undefined\<close> and \<^verbatim>\<open>''\<close> are falsy.\<close>

definition truthyString :: "string option \<Rightarrow> bool" where
  "truthyString v = (case v of None \<Rightarrow> False | Some s \<Rightarrow> s \<noteq> [])"

text \<open>
  \<^verbatim>\<open>handleMessage\<close>. Only \<^verbatim>\<open>'typing'\<close> has a case; the \<^verbatim>\<open>default\<close> case writes
  to the console and changes nothing.
\<close>

definition handleMessage :: "Hub \<Rightarrow> string \<Rightarrow> WebSocketMessage \<Rightarrow> Hub" where
  "handleMessage clients clientId message =
     (case clients clientId of
        None \<Rightarrow> clients
      | Some client \<Rightarrow>
          if ws_type message = ''typing''
          then
            (if truthyString (ws_userId message) \<and> truthyString (ws_conversationId message)
             then
               broadcastToConversation
                 (clients(clientId \<mapsto>
                    client\<lparr>client_userId := the (ws_userId message),
                           client_conversationId := ws_conversationId message\<rparr>))
                 (the (ws_conversationId message))
                 \<lparr>ws_type = ''typing'', ws_conversationId = None,
                  ws_userId = ws_userId message, ws_data = ws_data message\<rparr>
                 (Some clientId)
             else clients)
          else clients)"

text \<open>
  What arrives on a socket, by what \<^verbatim>\<open>JSON.parse(data.toString())\<close> does with it:
  it throws a SyntaxError, it returns \<^verbatim>\<open>null\<close>, or it returns a value whose fields the
  handler reads. A value with no string \<^verbatim>\<open>type\<close> (a number, an array, an object
  without the field) behaves as a frame of an unknown type.
\<close>

datatype RawData = NotJSON | JSONNull | JSONFrame WebSocketMessage

definition invalidFormat :: WebSocketMessage where
  "invalidFormat =
     \<lparr>ws_type = ''error'', ws_conversationId = None, ws_userId = None,
      ws_data = ErrorData ''Invalid message format''\<rparr>"

text \<open>
  The \<^verbatim>\<open>'message'\<close> listener of \<^verbatim>\<open>handleConnection\<close>. The \<^verbatim>\<open>catch\<close> is reached
  when \<^verbatim>\<open>JSON.parse\<close> throws, and when \<^verbatim>\<open>handleMessage\<close> throws: for \<^verbatim>\<open>null\<close>
  it returns early when the client is not registered, and otherwise reading
  \<^verbatim>\<open>message.type\<close> throws a TypeError.
\<close>

definition onMessage :: "Hub \<Rightarrow> string \<Rightarrow> RawData \<Rightarrow> Hub" where
  "onMessage clients clientId data =
     (case data of
        NotJSON \<Rightarrow> sendToClient clients clientId invalidFormat
      | JSONNull \<Rightarrow>
          (case clients clientId of
             None \<Rightarrow> clients
           | Some client \<Rightarrow> sendToClient clients clientId invalidFormat)
      | JSONFrame message \<Rightarrow> handleMessage clients clientId message)"

text \<open>The \<^verbatim>\<open>'close'\<close> and \<^verbatim>\<open>'error'\<close> listeners delete the entry.\<close>

definition onClose :: "Hub \<Rightarrow> string \<Rightarrow> Hub" where
  "onClose clients clientId = clients(clientId := None)"

definition onError :: "Hub \<Rightarrow> string \<Rightarrow> Hub" where
  "onError clients clientId = clients(clientId := None)"

text \<open>
  \<^verbatim>\<open>handleConnection\<close>: the identifier is the one \<^verbatim>\<open>generateClientId\<close> drew; the
  entry is stored and the confirmation is sent.
\<close>

definition handleConnection :: "Hub \<Rightarrow> string \<Rightarrow> WebSocket \<Rightarrow> Hub" where
  "handleConnection clients clientId ws =
     sendToClient
       (clients(clientId \<mapsto>
          \<lparr>client_ws = ws, client_userId = [], client_conversationId = None\<rparr>))
       clientId
       \<lparr>ws_type = ''connection'', ws_conversationId = None, ws_userId = None,
        ws_data = ConnectionData clientId ''Connected to Learning VI''\<rparr>"

section \<open>The messaging pipeline (server/routes.ts, POST /api/conversations/:id/messages)\<close>

text \<open>\<^verbatim>\<open>req.body.content\<close>: any JSON value, or \<^verbatim>\<open>undefined\<close> when the field is absent.\<close>

datatype js_value =
  JSUndefined
| JSNull
| JSBoolean bool
| JSNumber int
| JSString string
| JSObject

definition truthy :: "js_value \<Rightarrow> bool" where
  "truthy v =
     (case v of
        JSUndefined \<Rightarrow> False
      | JSNull \<Rightarrow> False
      | JSBoolean b \<Rightarrow> b
      | JSNumber n \<Rightarrow> n \<noteq> 0
      | JSString s \<Rightarrow> s \<noteq> []
      | JSObject \<Rightarrow> True)"

definition typeof :: "js_value \<Rightarrow> string" where
  "typeof v =
     (case v of
        JSUndefined \<Rightarrow> ''undefined''
      | JSNull \<Rightarrow> ''object''
      | JSBoolean b \<Rightarrow> ''boolean''
      | JSNumber n \<Rightarrow> ''number''
      | JSString s \<Rightarrow> ''string''
      | JSObject \<Rightarrow> ''object'')"

definition stringOf :: "js_value \<Rightarrow> string" where
  "stringOf v = (case v of JSString s \<Rightarrow> s | _ \<Rightarrow> [])"

datatype ResponseBody =
  MessageBody string
| SentBody Message Message

record HttpResponse =
  status :: nat
  body :: ResponseBody

text \<open>
  The server's state: the database, the hub's registry, and the requests the completion
  provider has received.
\<close>

record World =
  db :: Database
  hub :: Hub
  requests :: "CreateParams list"

text \<open>
  What one run of the handler draws from outside: how the database reads uuids and
  orders rows, the uuid and the clock reading of each insert, the clock reading of the
  title update, and what the provider does with the completion request and with the title
  request.
\<close>

record Env =
  engine :: Engine
  user_msg_id :: string
  user_msg_time :: nat
  ai_msg_id :: string
  ai_msg_time :: nat
  title_time :: nat
  completion_api :: "CreateParams \<Rightarrow> ApiResult"
  title_api :: "CreateParams \<Rightarrow> ApiResult"

definition failedToSend :: HttpResponse where
  "failedToSend = \<lparr>status = 500, body = MessageBody ''Failed to send message''\<rparr>"

definition toChatMessage :: "Message \<Rightarrow> ChatMessage" where
  "toChatMessage m = \<lparr>chat_role = msg_role m, chat_content = msg_content m\<rparr>"

text \<open>Lines 271 to 281: the hub is told and the pair is the answer.\<close>

definition notifyAndAnswer ::
  "World \<Rightarrow> string \<Rightarrow> Message \<Rightarrow> Message \<Rightarrow> HttpResponse \<times> World" where
  "notifyAndAnswer w conversationId userMessage aiMessage =
     (\<lparr>status = 200, body = SentBody userMessage aiMessage\<rparr>,
      w\<lparr>hub := notifyNewMessage (hub w) conversationId
                  (NewMessageData userMessage aiMessage)\<rparr>)"

text \<open>
  Lines 262 to 281: the title step, then the notification and the answer. It runs after
  both messages are stored; \<open>msgs\<close> is the log read before the completion. An exception
  of \<^verbatim>\<open>updateConversation\<close> ends in the handler's \<^verbatim>\<open>catch\<close>.
\<close>

definition finishExchange ::
  "Env \<Rightarrow> World \<Rightarrow> string \<Rightarrow> string \<Rightarrow> string \<Rightarrow> Message list \<Rightarrow> Message \<Rightarrow> GenResult
     \<Rightarrow> Message \<Rightarrow> HttpResponse \<times> World" where
  "finishExchange env w userId conversationId content msgs userMessage aiResponse aiMessage =
     (if length msgs = 1
      then
        (let (title, log) =
               generateTitle (title_api env) (requests w)
                 [\<lparr>chat_role = User, chat_content = content\<rparr>,
                  \<lparr>chat_role = Assistant, chat_content = gen_content aiResponse\<rparr>];
             w1 = w\<lparr>requests := log\<rparr>
         in case updateConversation (engine env) (db w1) conversationId userId
                   \<lparr>upd_title = Some title, upd_model = None\<rparr> (title_time env) of
              Inl err \<Rightarrow> (failedToSend, w1)
            | Inr (updated, d3) \<Rightarrow>
                notifyAndAnswer (w1\<lparr>db := d3\<rparr>) conversationId userMessage aiMessage)
      else notifyAndAnswer w conversationId userMessage aiMessage)"

text \<open>
  Lines 244 to 260: the log is read, the message just stored is taken out, the
  completion is asked for and stored. Every exception ends in the handler's
  \<^verbatim>\<open>catch\<close>, which answers 500.
\<close>

definition generateAndStore ::
  "Env \<Rightarrow> World \<Rightarrow> string \<Rightarrow> string \<Rightarrow> string \<Rightarrow> Message \<Rightarrow> HttpResponse \<times> World" where
  "generateAndStore env w userId conversationId content userMessage =
     (case getConversationMessages (engine env) (db w) conversationId userId of
        Inl err \<Rightarrow> (failedToSend, w)
      | Inr msgs \<Rightarrow>
          (let conversationHistory =
                 map toChatMessage (filter (\<lambda>m. msg_id m \<noteq> msg_id userMessage) msgs);
               (res, log) =
                 generateResponse (completion_api env) (requests w) content conversationHistory;
               w1 = w\<lparr>requests := log\<rparr>
           in case res of
                Inl err \<Rightarrow> (failedToSend, w1)
              | Inr aiResponse \<Rightarrow>
                  (case addMessage (engine env) (db w1)
                          \<lparr>ins_conversationId = conversationId, ins_role = Assistant,
                           ins_content = gen_content aiResponse,
                           ins_model = Some (gen_model aiResponse),
                           ins_tokenCount = gen_tokenCount aiResponse\<rparr>
                          (ai_msg_id env) (ai_msg_time env) of
                     Inl err \<Rightarrow> (failedToSend, w1)
                   | Inr (aiMessage, d2) \<Rightarrow>
                       finishExchange env (w1\<lparr>db := d2\<rparr>) userId conversationId content
                         msgs userMessage aiResponse aiMessage)))"

text \<open>
  The handler. \<open>userId\<close> is \<^verbatim>\<open>req.user.claims.sub\<close>, \<open>conversationId\<close> is
  \<^verbatim>\<open>req.params.id\<close>, \<open>content\<close> is \<^verbatim>\<open>req.body.content\<close>.
\<close>

definition postMessage ::
  "Env \<Rightarrow> World \<Rightarrow> string \<Rightarrow> string \<Rightarrow> js_value \<Rightarrow> HttpResponse \<times> World" where
  "postMessage env w userId conversationId content =
     (case getConversation (engine env) (db w) conversationId userId of
        Inl err \<Rightarrow> (failedToSend, w)
      | Inr None \<Rightarrow> (\<lparr>status = 404, body = MessageBody ''Conversation not found''\<rparr>, w)
      | Inr (Some conversation) \<Rightarrow>
          if \<not> truthy content \<or> typeof content \<noteq> ''string''
          then (\<lparr>status = 400, body = MessageBody ''Message content is required''\<rparr>, w)
          else
            (case addMessage (engine env) (db w)
                    \<lparr>ins_conversationId = conversationId, ins_role = User,
                     ins_content = stringOf content, ins_model = None,
                     ins_tokenCount = None\<rparr>
                    (user_msg_id env) (user_msg_time env) of
               Inl err \<Rightarrow> (failedToSend, w)
             | Inr (userMessage, d1) \<Rightarrow>
                 generateAndStore env (w\<lparr>db := d1\<rparr>) userId conversationId
                   (stringOf content) userMessage))"

section \<open>Observations on the hub\<close>

text \<open>
  A watcher of a conversation (the specification's glossary): a registered client whose
  entry names the conversation and whose connection is open.
\<close>

definition watching :: "Hub \<Rightarrow> string \<Rightarrow> string \<Rightarrow> bool" where
  "watching clients conversationId clientId =
     (case clients clientId of
        None \<Rightarrow> False
      | Some client \<Rightarrow>
          client_conversationId client = Some conversationId
          \<and> readyState (client_ws client) = OPEN)"

text \<open>
  The frames sent so far on a client's socket; a client that is not registered has
  none.
\<close>

definition outbox :: "Hub \<Rightarrow> string \<Rightarrow> WebSocketMessage list" where
  "outbox clients clientId =
     (case clients clientId of None \<Rightarrow> [] | Some client \<Rightarrow> sent (client_ws client))"

text \<open>
  The specification's words for a well-formed inbound frame (section 4.5): the only
  recognized kind is \<^verbatim>\<open>typing\<close>, carrying a user identifier, a conversation
  identifier and data.
\<close>

definition expectedShape :: "RawData \<Rightarrow> bool" where
  "expectedShape data =
     (case data of
        JSONFrame message \<Rightarrow>
          ws_type message = ''typing'' \<and> ws_userId message \<noteq> None
          \<and> ws_conversationId message \<noteq> None
      | _ \<Rightarrow> False)"

section \<open>The handler between its suspension points\<close>

text \<open>
  The handler is an \<^verbatim>\<open>async\<close> function on a single-threaded event loop: it runs
  without interruption from one \<^verbatim>\<open>await\<close> to the next, and other handlers run in
  between. A task is a handler that is suspended, with the local variables it has bound
  so far; the name of a state says what has happened last. A step completes the awaited
  operation and runs the handler up to its next suspension. The operations the handler
  waits for are, in the order of the source: the query of \<^verbatim>\<open>getConversation\<close>, the
  insert of the user's message, the two queries of \<^verbatim>\<open>getConversationMessages\<close>, the
  provider's completion, the insert of the assistant's message, the provider's title
  and the update of the conversation.

  A request to the provider is logged by the step that issues the call, that is, the
  step before the one that consumes the answer: \<^verbatim>\<open>generateResponse\<close> and
  \<^verbatim>\<open>generateTitle\<close> run up to their own \<^verbatim>\<open>await\<close> as soon as they are called.
\<close>

datatype Task =
  Received string string js_value
| Validated string string string
| UserPersisted string string string Message
| OwnerVerified string string string Message
| Generating string string string Message "Message list" CreateParams
| Generated string string string Message "Message list" GenResult
| AssistantPersisted string string Message Message string
| TitleGenerated string string Message Message string
| Done HttpResponse

fun step :: "Env \<Rightarrow> World \<Rightarrow> Task \<Rightarrow> World \<times> Task" where
  "step env w (Received userId conversationId content) =
     (case getConversation (engine env) (db w) conversationId userId of
        Inl err \<Rightarrow> (w, Done failedToSend)
      | Inr None \<Rightarrow>
          (w, Done \<lparr>status = 404, body = MessageBody ''Conversation not found''\<rparr>)
      | Inr (Some conversation) \<Rightarrow>
          if \<not> truthy content \<or> typeof content \<noteq> ''string''
          then (w, Done \<lparr>status = 400, body = MessageBody ''Message content is required''\<rparr>)
          else (w, Validated userId conversationId (stringOf content)))"
| "step env w (Validated userId conversationId content) =
     (case addMessage (engine env) (db w)
             \<lparr>ins_conversationId = conversationId, ins_role = User, ins_content = content,
              ins_model = None, ins_tokenCount = None\<rparr>
             (user_msg_id env) (user_msg_time env) of
        Inl err \<Rightarrow> (w, Done failedToSend)
      | Inr (userMessage, d1) \<Rightarrow>
          (w\<lparr>db := d1\<rparr>, UserPersisted userId conversationId content userMessage))"
| "step env w (UserPersisted userId conversationId content userMessage) =
     (case getConversation (engine env) (db w) conversationId userId of
        Inl err \<Rightarrow> (w, Done failedToSend)
      | Inr None \<Rightarrow> (w, Done failedToSend)
      | Inr (Some conversation) \<Rightarrow>
          (w, OwnerVerified userId conversationId content userMessage))"
| "step env w (OwnerVerified userId conversationId content userMessage) =
     (case selectMessages (engine env) (db w) conversationId of
        Inl err \<Rightarrow> (w, Done failedToSend)
      | Inr msgs \<Rightarrow>
          (let conversationHistory =
                 map toChatMessage (filter (\<lambda>m. msg_id m \<noteq> msg_id userMessage) msgs);
               params = completionParams content conversationHistory
           in (w\<lparr>requests := requests w @ [params]\<rparr>,
               Generating userId conversationId content userMessage msgs params)))"
| "step env w (Generating userId conversationId content userMessage msgs params) =
     (case readCompletion params (completion_api env params) of
        Inl err \<Rightarrow> (w, Done failedToSend)
      | Inr aiResponse \<Rightarrow>
          (w, Generated userId conversationId content userMessage msgs aiResponse))"
| "step env w (Generated userId conversationId content userMessage msgs aiResponse) =
     (case addMessage (engine env) (db w)
             \<lparr>ins_conversationId = conversationId, ins_role = Assistant,
              ins_content = gen_content aiResponse, ins_model = Some (gen_model aiResponse),
              ins_tokenCount = gen_tokenCount aiResponse\<rparr>
             (ai_msg_id env) (ai_msg_time env) of
        Inl err \<Rightarrow> (w, Done failedToSend)
      | Inr (aiMessage, d2) \<Rightarrow>
          if length msgs = 1
          then
            (let first = firstUserMessage
                   [\<lparr>chat_role = User, chat_content = content\<rparr>,
                    \<lparr>chat_role = Assistant, chat_content = gen_content aiResponse\<rparr>]
             in if first = []
                then (w\<lparr>db := d2\<rparr>,
                      TitleGenerated userId conversationId userMessage aiMessage
                        ''New Conversation'')
                else (w\<lparr>db := d2, requests := requests w @ [titleParams first]\<rparr>,
                      AssistantPersisted userId conversationId userMessage aiMessage first))
          else
            (case notifyAndAnswer (w\<lparr>db := d2\<rparr>) conversationId userMessage aiMessage of
               (response, w') \<Rightarrow> (w', Done response)))"
| "step env w (AssistantPersisted userId conversationId userMessage aiMessage first) =
     (w, TitleGenerated userId conversationId userMessage aiMessage
           (readTitle (title_api env (titleParams first))))"
| "step env w (TitleGenerated userId conversationId userMessage aiMessage title) =
     (case updateConversation (engine env) (db w) conversationId userId
             \<lparr>upd_title = Some title, upd_model = None\<rparr> (title_time env) of
        Inl err \<Rightarrow> (w, Done failedToSend)
      | Inr (updated, d3) \<Rightarrow>
          (case notifyAndAnswer (w\<lparr>db := d3\<rparr>) conversationId userMessage aiMessage of
             (response, w') \<Rightarrow> (w', Done response)))"
| "step env w (Done response) = (w, Done response)"

text \<open>A handler that runs alone: \<open>n\<close> steps of one task. Eight steps finish every task.\<close>

fun run :: "nat \<Rightarrow> Env \<Rightarrow> World \<Rightarrow> Task \<Rightarrow> World \<times> Task" where
  "run 0 env w t = (w, t)"
| "run (Suc n) env w t = (case step env w t of (w', t') \<Rightarrow> run n env w' t')"

text \<open>
  Two handlers on the event loop. The schedule says, step by step, which of the two
  runs next: \<open>True\<close> the first, \<open>False\<close> the second. Each task draws from its own
  environment.
\<close>

fun interleave ::
  "bool list \<Rightarrow> Env \<Rightarrow> Env \<Rightarrow> World \<Rightarrow> Task \<Rightarrow> Task \<Rightarrow> World \<times> Task \<times> Task" where
  "interleave [] env1 env2 w t1 t2 = (w, t1, t2)"
| "interleave (first # schedule) env1 env2 w t1 t2 =
     (if first
      then (case step env1 w t1 of (w', t1') \<Rightarrow> interleave schedule env1 env2 w' t1' t2)
      else (case step env2 w t2 of (w', t2') \<Rightarrow> interleave schedule env1 env2 w' t1 t2'))"

section \<open>Example states\<close>

text \<open>
  A reading of uuid text for the examples, after the documentation of PostgreSQL: 32
  hexadecimal digits in either case, a hyphen allowed after every group of four digits,
  the whole optionally in braces. The value is printed in lower case, in groups of 8, 4,
  4, 4 and 12 digits.
\<close>

definition isHexDigit :: "char \<Rightarrow> bool" where
  "isHexDigit c =
     (let n = (of_char c :: nat)
      in (48 \<le> n \<and> n \<le> 57) \<or> (65 \<le> n \<and> n \<le> 70) \<or> (97 \<le> n \<and> n \<le> 102))"

text \<open>
  \<open>readUuidBytes n src\<close> reads the last \<open>n\<close> of the 16 bytes: two digits each, and a
  hyphen after a byte of odd index that is not the last.
\<close>

fun readUuidBytes :: "nat \<Rightarrow> string \<Rightarrow> (string \<times> string) option" where
  "readUuidBytes 0 src = Some ([], src)"
| "readUuidBytes (Suc n) (a # b # src) =
     (if isHexDigit a \<and> isHexDigit b
      then
        (let i = 15 - n;
             src' = (case src of
                       [] \<Rightarrow> src
                     | x # t \<Rightarrow> if x = CHR ''-'' \<and> odd i \<and> i < 15 then t else src)
         in case readUuidBytes n src' of
              None \<Rightarrow> None
            | Some (digits, rest) \<Rightarrow> Some (toLowerChar a # toLowerChar b # digits, rest))
      else None)"
| "readUuidBytes (Suc n) src = None"

definition exUuidIn :: "string \<Rightarrow> string option" where
  "exUuidIn s =
     (let braces = (case s of [] \<Rightarrow> False | x # t \<Rightarrow> x = CHR ''{'');
          src = (if braces then tl s else s)
      in case readUuidBytes 16 src of
           None \<Rightarrow> None
         | Some (digits, rest) \<Rightarrow>
             if rest = (if braces then ''}'' else [])
             then Some (take 8 digits @ ''-'' @ take 4 (drop 8 digits) @ ''-''
                        @ take 4 (drop 12 digits) @ ''-'' @ take 4 (drop 16 digits) @ ''-''
                        @ drop 20 digits)
             else None)"

text \<open>The example database returns rows with equal timestamps in the order of insertion.\<close>

definition exEngine :: Engine where
  "exEngine = \<lparr>uuid_in = exUuidIn, order_rows = sort_key msg_createdAt\<rparr>"

definition exCid :: string where
  "exCid = ''c0000000-0000-4000-8000-000000000001''"

text \<open>Identifiers of message rows: a leading digit and a two-digit number at the end.\<close>

definition exId :: "char \<Rightarrow> nat \<Rightarrow> string" where
  "exId k i =
     k # ''0000000-0000-4000-8000-0000000000''
       @ [char_of (48 + i div 10), char_of (48 + i mod 10)]"

text \<open>
  One conversation of user \<^verbatim>\<open>alice\<close>, no messages yet, one open socket in the hub's
  registry.
\<close>

definition exConversation :: Conversation where
  "exConversation =
     \<lparr>conv_id = exCid, conv_userId = ''alice'', conv_title = ''New Chat'',
      conv_model = ''gpt-4o'', conv_createdAt = 0, conv_updatedAt = 0\<rparr>"

definition exClient :: Client where
  "exClient =
     \<lparr>client_ws = \<lparr>readyState = OPEN, sent = []\<rparr>, client_userId = ''alice'',
      client_conversationId = Some ''c1''\<rparr>"

definition exWorld :: World where
  "exWorld =
     \<lparr>db = \<lparr>conversations = [exConversation], messages = []\<rparr>,
      hub = [''k1'' \<mapsto> exClient], requests = []\<rparr>"



text \<open>
  A run in which the provider answers both requests, one in which the completion call
  throws, and one in which the completion is the empty string.
\<close>

definition exEnv :: Env where
  "exEnv =
     \<lparr>engine = exEngine,
      user_msg_id = exId (CHR ''a'') 0, user_msg_time = 20,
      ai_msg_id = exId (CHR ''b'') 0, ai_msg_time = 21,
      title_time = 22,
      completion_api = (\<lambda>p. ApiResponse [Some ''Hello!''] (Some 12)),
      title_api = (\<lambda>p. ApiResponse [Some '' Greeting exchange ''] None)\<rparr>"

definition exEnvThrows :: Env where
  "exEnvThrows = exEnv\<lparr>completion_api := (\<lambda>p. ApiThrows ''timeout'')\<rparr>"

definition exEnvEmpty :: Env where
  "exEnvEmpty = exEnv\<lparr>completion_api := (\<lambda>p. ApiResponse [Some []] None)\<rparr>"

text \<open>
  Two submissions to the same conversation. \<open>exEnv3\<close> is the second submission made
  after the first has finished.
\<close>

definition exEnv1 :: Env where
  "exEnv1 =
     \<lparr>engine = exEngine,
      user_msg_id = exId (CHR ''a'') 1, user_msg_time = 1,
      ai_msg_id = exId (CHR ''b'') 1, ai_msg_time = 4,
      title_time = 5,
      completion_api = (\<lambda>p. ApiResponse [Some ''answer one''] None),
      title_api = (\<lambda>p. ApiResponse [Some ''A title''] None)\<rparr>"

definition exEnv2 :: Env where
  "exEnv2 =
     \<lparr>engine = exEngine,
      user_msg_id = exId (CHR ''a'') 2, user_msg_time = 2,
      ai_msg_id = exId (CHR ''b'') 2, ai_msg_time = 6,
      title_time = 7,
      completion_api = (\<lambda>p. ApiResponse [Some ''answer two''] None),
      title_api = (\<lambda>p. ApiResponse [Some ''B title''] None)\<rparr>"

definition exEnv3 :: Env where
  "exEnv3 = exEnv2\<lparr>user_msg_time := 8, ai_msg_time := 9, title_time := 10\<rparr>"

text \<open>
  In \<open>exRace\<close> the second handler starts while the first awaits its completion: the first
  runs four steps, the second four steps, then the first finishes (four steps, with the
  title) and the second finishes (two steps).
\<close>

definition exRace :: "World \<times> Task \<times> Task" where
  "exRace =
     interleave
       [True, True, True, True, False, False, False, False,
        True, True, True, True, False, False]
       exEnv1 exEnv2 exWorld
       (Received ''alice'' exCid (JSString ''first''))
       (Received ''alice'' exCid (JSString ''second''))"



text \<open>
  Two sockets connect and both send a typing frame for conversation \<^verbatim>\<open>c1\<close>.
\<close>

definition exTwoWatchers :: Hub where
  "exTwoWatchers =
     onMessage
       (onMessage
          (handleConnection
             (handleConnection Map.empty ''a'' \<lparr>readyState = OPEN, sent = []\<rparr>)
             ''b'' \<lparr>readyState = OPEN, sent = []\<rparr>)
          ''a'' (JSONFrame \<lparr>ws_type = ''typing'', ws_conversationId = Some ''c1'',
                   ws_userId = Some ''alice'', ws_data = ClientData ''typing''\<rparr>))
       ''b'' (JSONFrame \<lparr>ws_type = ''typing'', ws_conversationId = Some ''c1'',
                ws_userId = Some ''bob'', ws_data = ClientData ''typing''\<rparr>)"

section \<open>Properties of the prefix router\<close>

lemma startsWith_Nil [simp]: "startsWith l [] = True"
  by (simp add: startsWith_def)

lemma startsWith_Cons:
  "startsWith l (a # p) = (case l of [] \<Rightarrow> False | x # t \<Rightarrow> x = a \<and> startsWith t p)"
  by (cases l) (auto simp: startsWith_def)

lemma startsWith_toLowerCase:
  "toLowerCase p = p \<Longrightarrow> startsWith (toLowerCase m) p = startsWithIgnoringCase m p"
proof -
  assume p: "toLowerCase p = p"
  have "take (length p) (map toLowerChar m) = p \<Longrightarrow> length p \<le> length m"
  proof -
    assume "take (length p) (map toLowerChar m) = p"
    then have "length (take (length p) (map toLowerChar m)) = length p" by simp
    then show ?thesis by simp
  qed
  then show ?thesis
    using p by (auto simp: startsWith_def startsWithIgnoringCase_def toLowerCase_def take_map)
qed

lemma lower_prefixes:
  "toLowerCase ''code:'' = ''code:''" "toLowerCase ''research:'' = ''research:''"
  "toLowerCase ''creative:'' = ''creative:''" "toLowerCase ''analysis:'' = ''analysis:''"
  by (simp_all add: toLowerCase_def toLowerChar_def)

lemma model_routeLoop:
  "\<forall>(p, c) \<in> set tbl. cfg_model c = ''gpt-4o'' \<Longrightarrow> model (routeLoop tbl l m) = ''gpt-4o''"
  by (induction tbl l m rule: routeLoop.induct) auto

text \<open>
  Claim C10. Whatever the raw message is, the router selects the model \<^verbatim>\<open>gpt-4o\<close>:
  the four rules and the default all name it, so a prefix only changes the system prompt
  and the cleaned message.
\<close>

theorem getModelAndPrompt_model_constant: "model (getModelAndPrompt m) = ''gpt-4o''"
  unfolding getModelAndPrompt_def
  by (rule model_routeLoop) (simp add: modelRouting_def)


lemma routeLoop_no_match:
  "\<forall>(p, c) \<in> set tbl. \<not> startsWith l p \<Longrightarrow>
   routeLoop tbl l m = \<lparr>model = ''gpt-4o'', systemPrompt = None, cleanedMessage = m\<rparr>"
  by (induction tbl l m rule: routeLoop.induct) auto

lemma routeLoop_match:
  "distinct (map fst tbl) \<Longrightarrow> (p, c) \<in> set tbl \<Longrightarrow> startsWith l p \<Longrightarrow>
   \<forall>q \<in> set (map fst tbl). startsWith l q \<longrightarrow> q = p \<Longrightarrow>
   routeLoop tbl l m =
     \<lparr>model = cfg_model c, systemPrompt = cfg_systemPrompt c,
      cleanedMessage = trim (drop (length p) m)\<rparr>"
proof (induction tbl l m rule: routeLoop.induct)
  case (1 l m)
  then show ?case by simp
next
  case (2 q d rest l m)
  show ?case
  proof (cases "startsWith l q")
    case True
    with "2.prems"(4) have qp: "q = p" by simp
    have "q \<notin> fst ` set rest" using "2.prems"(1) by simp
    then have "(p, c) \<notin> set rest" using qp by force
    then have "d = c" using "2.prems"(2) qp by simp
    with True qp show ?thesis by (simp add: substring_def)
  next
    case False
    have "(p, c) \<in> set rest" using False "2.prems"(2,3) by auto
    moreover have "distinct (map fst rest)" using "2.prems"(1) by simp
    moreover have "\<forall>q \<in> set (map fst rest). startsWith l q \<longrightarrow> q = p"
      using "2.prems"(4) by simp
    ultimately have "routeLoop rest l m =
      \<lparr>model = cfg_model c, systemPrompt = cfg_systemPrompt c,
       cleanedMessage = trim (drop (length p) m)\<rparr>"
      using "2.IH" [OF False] "2.prems"(3) by blast
    with False show ?thesis by simp
  qed
qed

lemma prefix_clash:
  assumes "startsWith l p" "startsWith l q" "length p \<le> length q"
  shows "take (length p) q = p"
proof -
  have "take (length p) q = take (length p) (take (length q) l)"
    using assms(2) by (simp add: startsWith_def)
  also have "\<dots> = take (length p) l" using assms(3) by (simp add: min_def)
  finally show ?thesis using assms(1) by (simp add: startsWith_def)
qed

lemma routing_keys:
  "map fst modelRouting = [''code:'', ''research:'', ''creative:'', ''analysis:'']"
  by (simp add: modelRouting_def)

lemma routing_keys_apart:
  assumes "p \<in> set (map fst modelRouting)" "q \<in> set (map fst modelRouting)"
    "startsWith l p" "startsWith l q"
  shows "q = p"
proof -
  have "take (length p) q = p \<or> take (length q) p = q"
    using prefix_clash [OF assms(3) assms(4)] prefix_clash [OF assms(4) assms(3)]
    by (cases "length p \<le> length q") auto
  then show ?thesis
    using assms(1,2) unfolding routing_keys by auto
qed

text \<open>
  Claim C3. When the raw message \<open>m\<close> starts, case ignored, with the prefix \<open>p\<close> of a
  configured rule, the router returns that rule's model and system prompt and, as cleaned
  message, \<open>m\<close> without its first \<open>length p\<close> characters, trimmed. When no configured
  prefix starts \<open>m\<close> (the empty message is such a message), it returns the default model
  \<^verbatim>\<open>gpt-4o\<close>, no system prompt, and \<open>m\<close> itself. The router is a total function: it has
  a value on every string.
\<close>

theorem getModelAndPrompt_routes:
  "((p, c) \<in> set modelRouting \<and> startsWithIgnoringCase m p \<longrightarrow>
      getModelAndPrompt m =
        \<lparr>model = cfg_model c, systemPrompt = cfg_systemPrompt c,
         cleanedMessage = trim (drop (length p) m)\<rparr>) \<and>
   ((\<forall>(p, c) \<in> set modelRouting. \<not> startsWithIgnoringCase m p) \<longrightarrow>
      getModelAndPrompt m = \<lparr>model = ''gpt-4o'', systemPrompt = None, cleanedMessage = m\<rparr>)"
proof (intro conjI impI)
  have low: "toLowerCase q = q" if "q \<in> set (map fst modelRouting)" for q
    using that lower_prefixes unfolding routing_keys by auto
  {
    assume "\<forall>(p, c) \<in> set modelRouting. \<not> startsWithIgnoringCase m p"
    then have "\<forall>(p, c) \<in> set modelRouting. \<not> startsWith (toLowerCase m) p"
      using low startsWith_toLowerCase by fastforce
    then show "getModelAndPrompt m =
        \<lparr>model = ''gpt-4o'', systemPrompt = None, cleanedMessage = m\<rparr>"
      unfolding getModelAndPrompt_def by (rule routeLoop_no_match)
  }
  {
    assume a: "(p, c) \<in> set modelRouting \<and> startsWithIgnoringCase m p"
    then have k: "p \<in> set (map fst modelRouting)" by force
    with a have s: "startsWith (toLowerCase m) p"
      using startsWith_toLowerCase [OF low] by simp
    have d: "distinct (map fst modelRouting)" unfolding routing_keys by simp
    have u: "\<forall>q \<in> set (map fst modelRouting). startsWith (toLowerCase m) q \<longrightarrow> q = p"
      using routing_keys_apart [OF k _ s] by blast
    show "getModelAndPrompt m =
        \<lparr>model = cfg_model c, systemPrompt = cfg_systemPrompt c,
         cleanedMessage = trim (drop (length p) m)\<rparr>"
      unfolding getModelAndPrompt_def using routeLoop_match [OF d _ s u] a by blast
  }
qed

theorem getModelAndPrompt_routes_witness:
  "getModelAndPrompt ''CoDe:  write a Hello  '' =
     \<lparr>model = ''gpt-4o'', systemPrompt = Some
        ''You are an expert software developer and architect. Provide detailed, accurate code examples and explanations. Focus on best practices, security, and maintainability.'',
      cleanedMessage = ''write a Hello''\<rparr> \<and>
   getModelAndPrompt ''hello there'' =
     \<lparr>model = ''gpt-4o'', systemPrompt = None, cleanedMessage = ''hello there''\<rparr> \<and>
   getModelAndPrompt [] = \<lparr>model = ''gpt-4o'', systemPrompt = None, cleanedMessage = []\<rparr>"
proof -
  let ?c = "\<lparr>cfg_model = ''gpt-4o'', cfg_systemPrompt = Some
        ''You are an expert software developer and architect. Provide detailed, accurate code examples and explanations. Focus on best practices, security, and maintainability.''\<rparr>"
  have 1: "(''code:'', ?c) \<in> set modelRouting \<and>
      startsWithIgnoringCase ''CoDe:  write a Hello  '' ''code:''"
    by code_simp
  have t: "trim (drop (length ''code:'') ''CoDe:  write a Hello  '') = ''write a Hello''"
    by code_simp
  have 2: "\<forall>(p, c) \<in> set modelRouting. \<not> startsWithIgnoringCase ''hello there'' p"
    by code_simp
  have 3: "\<forall>(p, c) \<in> set modelRouting. \<not> startsWithIgnoringCase [] p"
    by code_simp
  have A: "getModelAndPrompt ''CoDe:  write a Hello  '' =
        \<lparr>model = cfg_model ?c, systemPrompt = cfg_systemPrompt ?c,
         cleanedMessage = trim (drop (length ''code:'') ''CoDe:  write a Hello  '')\<rparr>"
    using getModelAndPrompt_routes [of "''code:''" ?c "''CoDe:  write a Hello  ''"] 1 by blast
  have B: "getModelAndPrompt ''hello there'' =
     \<lparr>model = ''gpt-4o'', systemPrompt = None, cleanedMessage = ''hello there''\<rparr>"
    using getModelAndPrompt_routes [of _ _ "''hello there''"] 2 by blast
  have C: "getModelAndPrompt [] = \<lparr>model = ''gpt-4o'', systemPrompt = None, cleanedMessage = []\<rparr>"
    using getModelAndPrompt_routes [of _ _ "[]"] 3 by blast
  show ?thesis
    unfolding A B C t by simp
qed

section \<open>Properties of the realtime hub\<close>

lemma outbox_broadcast:
  "outbox (broadcastToConversation clients c message ex) k =
     (if watching clients c k \<and> Some k \<noteq> ex then outbox clients k @ [message]
      else outbox clients k)"
  by (auto simp: outbox_def broadcastToConversation_def watching_def wsSend_def
        split: option.splits)

lemma watching_upd_other: "k \<noteq> a \<Longrightarrow> watching (clients(a \<mapsto> x)) c k = watching clients c k"
  by (simp add: watching_def)

lemma outbox_upd_other: "k \<noteq> a \<Longrightarrow> outbox (clients(a \<mapsto> x)) k = outbox clients k"
  by (simp add: outbox_def)

lemma outbox_upd_same: "outbox (clients(a \<mapsto> x)) a = sent (client_ws x)"
  by (simp add: outbox_def)

lemma handleMessage_typing:
  "clients a = Some y \<Longrightarrow> u \<noteq> [] \<Longrightarrow> c \<noteq> [] \<Longrightarrow>
   handleMessage clients a
     \<lparr>ws_type = ''typing'', ws_conversationId = Some c, ws_userId = Some u, ws_data = d\<rparr> =
   broadcastToConversation
     (clients(a \<mapsto> y\<lparr>client_userId := u, client_conversationId := Some c\<rparr>)) c
     \<lparr>ws_type = ''typing'', ws_conversationId = None, ws_userId = Some u, ws_data = d\<rparr>
     (Some a)"
  by (simp add: handleMessage_def truthyString_def)

lemma handleMessage_ignored:
  "clients a = None \<or> ws_type m \<noteq> ''typing'' \<or> \<not> truthyString (ws_userId m)
     \<or> \<not> truthyString (ws_conversationId m) \<Longrightarrow>
   handleMessage clients a m = clients"
  by (auto simp: handleMessage_def split: option.splits)

text \<open>
  Claim C8. Let \<open>k\<close> be a registered client that watches conversation \<open>c\<close> on an open
  connection. A message broadcast for \<open>c\<close> is sent to \<open>k\<close>, whoever \<open>k\<close> is: nobody
  is excluded, the client whose submission caused it included. A typing frame for \<open>c\<close>
  (it carries a user identifier and the conversation identifier, neither empty) that
  arrives from a registered client \<open>a\<close> is sent on to \<open>k\<close> when \<open>k\<close> is not \<open>a\<close>.
  Nothing is sent to \<open>a\<close> itself.
\<close>

theorem broadcast_fanout:
  "(watching clients c k \<longrightarrow>
      outbox (notifyNewMessage clients c payload) k =
        outbox clients k @
          [\<lparr>ws_type = ''message'', ws_conversationId = Some c, ws_userId = None,
            ws_data = payload\<rparr>]) \<and>
   (clients a \<noteq> None \<and> u \<noteq> [] \<and> c \<noteq> [] \<and> watching clients c k \<and> k \<noteq> a \<longrightarrow>
      outbox (handleMessage clients a
                \<lparr>ws_type = ''typing'', ws_conversationId = Some c, ws_userId = Some u,
                 ws_data = d\<rparr>) k =
        outbox clients k @
          [\<lparr>ws_type = ''typing'', ws_conversationId = None, ws_userId = Some u,
            ws_data = d\<rparr>]) \<and>
   outbox (handleMessage clients a
             \<lparr>ws_type = ''typing'', ws_conversationId = Some c, ws_userId = Some u,
              ws_data = d\<rparr>) a = outbox clients a"
proof (intro conjI impI)
  let ?m = "\<lparr>ws_type = ''typing'', ws_conversationId = Some c, ws_userId = Some u,
              ws_data = d\<rparr>"
  show "outbox (handleMessage clients a ?m) a = outbox clients a"
  proof (cases "clients a \<noteq> None \<and> u \<noteq> [] \<and> c \<noteq> []")
    case True
    then obtain y where y: "clients a = Some y" by auto
    show ?thesis
      using True y by (simp add: handleMessage_typing outbox_broadcast outbox_upd_same)
        (simp add: outbox_def)
  next
    case False
    then have "handleMessage clients a ?m = clients"
      by (intro handleMessage_ignored) (auto simp: truthyString_def)
    then show ?thesis by simp
  qed
next
  assume "watching clients c k"
  then show "outbox (notifyNewMessage clients c payload) k =
        outbox clients k @
          [\<lparr>ws_type = ''message'', ws_conversationId = Some c, ws_userId = None,
            ws_data = payload\<rparr>]"
    by (simp add: notifyNewMessage_def outbox_broadcast)
next
  assume h: "clients a \<noteq> None \<and> u \<noteq> [] \<and> c \<noteq> [] \<and> watching clients c k \<and> k \<noteq> a"
  then obtain y where y: "clients a = Some y" by auto
  from h y show "outbox (handleMessage clients a
                \<lparr>ws_type = ''typing'', ws_conversationId = Some c, ws_userId = Some u,
                 ws_data = d\<rparr>) k =
        outbox clients k @
          [\<lparr>ws_type = ''typing'', ws_conversationId = None, ws_userId = Some u,
            ws_data = d\<rparr>]"
    by (simp add: handleMessage_typing outbox_broadcast watching_upd_other outbox_upd_other)
qed

text \<open>
  The specification's scenario: both sockets get the message frame, the typing frame of
  \<^verbatim>\<open>a\<close> reaches \<^verbatim>\<open>b\<close> and not \<^verbatim>\<open>a\<close>.
\<close>

theorem broadcast_fanout_witness:
  "watching exTwoWatchers ''c1'' ''a'' \<and> watching exTwoWatchers ''c1'' ''b'' \<and>
   outbox (notifyNewMessage exTwoWatchers ''c1'' NoData) ''a'' =
     outbox exTwoWatchers ''a'' @
       [\<lparr>ws_type = ''message'', ws_conversationId = Some ''c1'', ws_userId = None,
         ws_data = NoData\<rparr>] \<and>
   outbox (notifyNewMessage exTwoWatchers ''c1'' NoData) ''b'' =
     outbox exTwoWatchers ''b'' @
       [\<lparr>ws_type = ''message'', ws_conversationId = Some ''c1'', ws_userId = None,
         ws_data = NoData\<rparr>] \<and>
   outbox (handleMessage exTwoWatchers ''a''
             \<lparr>ws_type = ''typing'', ws_conversationId = Some ''c1'', ws_userId = Some ''alice'',
              ws_data = NoData\<rparr>) ''b'' =
     outbox exTwoWatchers ''b'' @
       [\<lparr>ws_type = ''typing'', ws_conversationId = None, ws_userId = Some ''alice'',
         ws_data = NoData\<rparr>] \<and>
   outbox (handleMessage exTwoWatchers ''a''
             \<lparr>ws_type = ''typing'', ws_conversationId = Some ''c1'', ws_userId = Some ''alice'',
              ws_data = NoData\<rparr>) ''a'' = outbox exTwoWatchers ''a''"
proof -
  have wa: "watching exTwoWatchers ''c1'' ''a''" by code_simp
  have wb: "watching exTwoWatchers ''c1'' ''b''" by code_simp
  have h: "exTwoWatchers ''a'' \<noteq> None \<and> ''alice'' \<noteq> [] \<and> ''c1'' \<noteq> [] \<and>
           watching exTwoWatchers ''c1'' ''b'' \<and> ''b'' \<noteq> ''a''"
    by code_simp
  show ?thesis
    using broadcast_fanout [of exTwoWatchers "''c1''" "''a''" NoData "''a''" "''alice''" NoData]
      broadcast_fanout [of exTwoWatchers "''c1''" "''b''" NoData "''a''" "''alice''" NoData] wa wb h
    by blast
qed

text \<open>
  Claim C9, as the code has it. When the text of an inbound frame is not JSON, or is the
  JSON value \<^verbatim>\<open>null\<close>, and the sender is registered with an open connection, the hub
  sends the error frame to the sender and changes nothing else: the sender's connection
  stays open, its user and conversation stay, and no other entry gets a frame. When the
  sender's connection is not open, nothing happens at all. A frame that parses but is not
  a typing frame with a non-empty user identifier and conversation identifier is ignored:
  no error frame, no change of the registry, no broadcast.
\<close>

theorem malformed_frame_reply:
  "((data = NotJSON \<or> data = JSONNull) \<and> clients a = Some cl
      \<and> readyState (client_ws cl) = OPEN \<longrightarrow>
      onMessage clients a data = clients(a \<mapsto> wsSend cl invalidFormat) \<and>
      sent (client_ws (wsSend cl invalidFormat)) = sent (client_ws cl) @ [invalidFormat] \<and>
      readyState (client_ws (wsSend cl invalidFormat)) = OPEN \<and>
      client_userId (wsSend cl invalidFormat) = client_userId cl \<and>
      client_conversationId (wsSend cl invalidFormat) = client_conversationId cl) \<and>
   ((data = NotJSON \<or> data = JSONNull) \<and> clients a = Some cl
      \<and> readyState (client_ws cl) \<noteq> OPEN \<longrightarrow>
      onMessage clients a data = clients) \<and>
   (ws_type m \<noteq> ''typing'' \<or> \<not> truthyString (ws_userId m)
      \<or> \<not> truthyString (ws_conversationId m) \<longrightarrow>
      onMessage clients a (JSONFrame m) = clients)"
  by (auto simp: onMessage_def sendToClient_def handleMessage_ignored wsSend_def)

theorem malformed_frame_reply_witness:
  "onMessage (hub exWorld) ''k1'' NotJSON = (hub exWorld)(''k1'' \<mapsto> wsSend exClient invalidFormat) \<and>
   onMessage (hub exWorld) ''k1'' JSONNull = (hub exWorld)(''k1'' \<mapsto> wsSend exClient invalidFormat) \<and>
   sent (client_ws (wsSend exClient invalidFormat)) = sent (client_ws exClient) @ [invalidFormat] \<and>
   readyState (client_ws (wsSend exClient invalidFormat)) = OPEN \<and>
   onMessage ((hub exWorld)(''k1'' \<mapsto> exClient\<lparr>client_ws := \<lparr>readyState = CLOSING, sent = []\<rparr>\<rparr>))
       ''k1'' NotJSON =
     (hub exWorld)(''k1'' \<mapsto> exClient\<lparr>client_ws := \<lparr>readyState = CLOSING, sent = []\<rparr>\<rparr>) \<and>
   onMessage (hub exWorld) ''k1''
     (JSONFrame \<lparr>ws_type = ''message'', ws_conversationId = Some ''c1'',
        ws_userId = Some ''alice'', ws_data = NoData\<rparr>) = hub exWorld \<and>
   onMessage (hub exWorld) ''k1''
     (JSONFrame \<lparr>ws_type = ''typing'', ws_conversationId = Some ''c1'',
        ws_userId = None, ws_data = NoData\<rparr>) = hub exWorld"
proof -
  let ?closing = "exClient\<lparr>client_ws := \<lparr>readyState = CLOSING, sent = []\<rparr>\<rparr>"
  let ?h = "(hub exWorld)(''k1'' \<mapsto> ?closing)"
  have o: "hub exWorld ''k1'' = Some exClient \<and> readyState (client_ws exClient) = OPEN"
    by (simp add: exWorld_def exClient_def)
  have c: "?h ''k1'' = Some ?closing \<and> readyState (client_ws ?closing) \<noteq> OPEN"
    by simp
  have t1: "ws_type \<lparr>ws_type = ''message'', ws_conversationId = Some ''c1'',
        ws_userId = Some ''alice'', ws_data = NoData\<rparr> \<noteq> ''typing''" by simp
  have t2: "\<not> truthyString (ws_userId \<lparr>ws_type = ''typing'', ws_conversationId = Some ''c1'',
        ws_userId = None, ws_data = NoData\<rparr>)" by (simp add: truthyString_def)
  have 1: "onMessage (hub exWorld) ''k1'' NotJSON =
             (hub exWorld)(''k1'' \<mapsto> wsSend exClient invalidFormat) \<and>
           sent (client_ws (wsSend exClient invalidFormat)) =
             sent (client_ws exClient) @ [invalidFormat] \<and>
           readyState (client_ws (wsSend exClient invalidFormat)) = OPEN"
    using malformed_frame_reply [of NotJSON "hub exWorld" "''k1''" exClient] o by blast
  have 2: "onMessage (hub exWorld) ''k1'' JSONNull =
             (hub exWorld)(''k1'' \<mapsto> wsSend exClient invalidFormat)"
    using malformed_frame_reply [of JSONNull "hub exWorld" "''k1''" exClient] o by blast
  have 3: "onMessage ?h ''k1'' NotJSON = ?h"
    using malformed_frame_reply [of NotJSON ?h "''k1''" ?closing] c by blast
  have 4: "onMessage (hub exWorld) ''k1''
     (JSONFrame \<lparr>ws_type = ''message'', ws_conversationId = Some ''c1'',
        ws_userId = Some ''alice'', ws_data = NoData\<rparr>) = hub exWorld"
    using malformed_frame_reply [of _ "hub exWorld" "''k1''" _ "\<lparr>ws_type = ''message'',
        ws_conversationId = Some ''c1'', ws_userId = Some ''alice'', ws_data = NoData\<rparr>"] t1
    by blast
  have 5: "onMessage (hub exWorld) ''k1''
     (JSONFrame \<lparr>ws_type = ''typing'', ws_conversationId = Some ''c1'',
        ws_userId = None, ws_data = NoData\<rparr>) = hub exWorld"
    using malformed_frame_reply [of _ "hub exWorld" "''k1''" _ "\<lparr>ws_type = ''typing'',
        ws_conversationId = Some ''c1'', ws_userId = None, ws_data = NoData\<rparr>"] t2
    by blast
  show ?thesis using 1 2 3 4 5 by blast
qed

text \<open>
  Claim C9 as stated fails: a frame of type \<^verbatim>\<open>message\<close> is not of the expected
  shape, it comes from a registered client with an open connection, and no error frame is
  sent back.
\<close>

theorem unrecognised_frame_counterexample:
  "\<not> expectedShape (JSONFrame \<lparr>ws_type = ''message'', ws_conversationId = Some ''c1'',
        ws_userId = Some ''alice'', ws_data = NoData\<rparr>) \<and>
   hub exWorld ''k1'' = Some exClient \<and> readyState (client_ws exClient) = OPEN \<and>
   outbox (hub exWorld) ''k1'' = [] \<and>
   outbox (onMessage (hub exWorld) ''k1''
             (JSONFrame \<lparr>ws_type = ''message'', ws_conversationId = Some ''c1'',
                ws_userId = Some ''alice'', ws_data = NoData\<rparr>)) ''k1'' = []"
  by (simp add: expectedShape_def onMessage_def handleMessage_def exWorld_def exClient_def
        outbox_def)

section \<open>Properties of the messaging pipeline\<close>

subsection \<open>The store\<close>

lemma getConversation_found:
  assumes "uuid_in eng c = Some cid" "validText u"
    "\<exists>conv \<in> set (conversations d). conv_id conv = cid \<and> conv_userId conv = u"
  shows "\<exists>conv. getConversation eng d c u = Inr (Some conv)"
proof -
  have "find (\<lambda>cv. conv_id cv = cid \<and> conv_userId cv = u) (conversations d) \<noteq> None"
    using assms(3) by (auto simp: find_None_iff)
  then show ?thesis using assms(1,2) by (auto simp: getConversation_def)
qed


lemma getConversation_Some_iff:
  "(\<exists>conv. getConversation eng d c u = Inr (Some conv)) \<longleftrightarrow>
   (\<exists>cid. uuid_in eng c = Some cid \<and> validText u \<and>
      (\<exists>conv \<in> set (conversations d). conv_id conv = cid \<and> conv_userId conv = u))"
proof
  assume "\<exists>conv. getConversation eng d c u = Inr (Some conv)"
  then obtain conv where g: "getConversation eng d c u = Inr (Some conv)" ..
  then obtain cid where u: "uuid_in eng c = Some cid"
    by (cases "uuid_in eng c") (simp_all add: getConversation_def)
  from g u have v: "validText u"
    by (cases "validText u") (simp_all add: getConversation_def)
  from g u v have "find (\<lambda>cv. conv_id cv = cid \<and> conv_userId cv = u) (conversations d) \<noteq> None"
    by (simp add: getConversation_def)
  then have "\<exists>conv \<in> set (conversations d). conv_id conv = cid \<and> conv_userId conv = u"
    by (auto simp: find_None_iff)
  with u v show "\<exists>cid. uuid_in eng c = Some cid \<and> validText u \<and>
      (\<exists>conv \<in> set (conversations d). conv_id conv = cid \<and> conv_userId conv = u)"
    by blast
next
  assume "\<exists>cid. uuid_in eng c = Some cid \<and> validText u \<and>
      (\<exists>conv \<in> set (conversations d). conv_id conv = cid \<and> conv_userId conv = u)"
  then show "\<exists>conv. getConversation eng d c u = Inr (Some conv)"
    using getConversation_found by blast
qed

lemma getConversation_messages_upd [simp]:
  "getConversation eng (d\<lparr>messages := ms\<rparr>) c u = getConversation eng d c u"
  by (cases "uuid_in eng c") (simp_all add: getConversation_def)

lemma selectMessages_uuid:
  "uuid_in eng c = Some cid \<Longrightarrow>
   selectMessages eng d c =
     Inr (order_rows eng (filter (\<lambda>m. msg_conversationId m = cid) (messages d)))"
  by (simp add: selectMessages_def)

lemma addMessage_Inr:
  assumes "uuid_in eng c = Some cid" "validText s" "validOptionalText mo" "validInteger tc"
    "ident \<notin> set (map msg_id (messages d))"
    "\<exists>conv \<in> set (conversations d). conv_id conv = cid \<and> conv_userId conv = u"
  shows "addMessage eng d
           \<lparr>ins_conversationId = c, ins_role = r, ins_content = s, ins_model = mo,
            ins_tokenCount = tc\<rparr> ident now =
         Inr (\<lparr>msg_id = ident, msg_conversationId = cid, msg_role = r, msg_content = s,
               msg_model = mo, msg_tokenCount = tc, msg_createdAt = now\<rparr>,
              d\<lparr>messages := messages d @
                   [\<lparr>msg_id = ident, msg_conversationId = cid, msg_role = r, msg_content = s,
                     msg_model = mo, msg_tokenCount = tc, msg_createdAt = now\<rparr>]\<rparr>)"
proof -
  have "cid \<in> set (map conv_id (conversations d))" using assms(6) by auto
  then show ?thesis using assms(1-5) by (simp add: addMessage_def Let_def)
qed

lemma addMessage_Inr_iff:
  "addMessage eng d
     \<lparr>ins_conversationId = c, ins_role = r, ins_content = s, ins_model = mo,
      ins_tokenCount = tc\<rparr> ident now = Inr (m, d') \<longleftrightarrow>
   (\<exists>cid. uuid_in eng c = Some cid \<and> validText s \<and> validOptionalText mo \<and> validInteger tc \<and>
      ident \<notin> set (map msg_id (messages d)) \<and> cid \<in> set (map conv_id (conversations d)) \<and>
      m = \<lparr>msg_id = ident, msg_conversationId = cid, msg_role = r, msg_content = s,
           msg_model = mo, msg_tokenCount = tc, msg_createdAt = now\<rparr> \<and>
      d' = d\<lparr>messages := messages d @ [m]\<rparr>)"
  by (cases "uuid_in eng c") (auto simp: addMessage_def Let_def)

lemma addMessage_rejects:
  assumes "\<not> validText s \<or> \<not> validOptionalText mo \<or> \<not> validInteger tc"
  shows "\<exists>e. addMessage eng d
           \<lparr>ins_conversationId = c, ins_role = r, ins_content = s, ins_model = mo,
            ins_tokenCount = tc\<rparr> ident now = Inl e"
  using assms by (cases "uuid_in eng c") (auto simp: addMessage_def)

lemma applyUpdates_title:
  "applyUpdates \<lparr>upd_title = Some t, upd_model = None\<rparr> now =
     (\<lambda>cv. cv\<lparr>conv_title := t, conv_updatedAt := now\<rparr>)"
  by (rule ext) (simp add: applyUpdates_def)

lemma updateConversation_Inr:
  assumes "uuid_in eng c = Some cid" "validText u" "validText t"
  shows "updateConversation eng d c u \<lparr>upd_title = Some t, upd_model = None\<rparr> now =
         Inr (map_option (\<lambda>cv. cv\<lparr>conv_title := t, conv_updatedAt := now\<rparr>)
                (find (\<lambda>cv. conv_id cv = cid \<and> conv_userId cv = u) (conversations d)),
              d\<lparr>conversations :=
                   map (\<lambda>cv. if conv_id cv = cid \<and> conv_userId cv = u
                             then cv\<lparr>conv_title := t, conv_updatedAt := now\<rparr> else cv)
                     (conversations d)\<rparr>)"
  using assms
  by (simp add: updateConversation_def validOptionalText_def applyUpdates_title Let_def)

lemma updateConversation_rejects:
  assumes "\<not> validText t"
  shows "\<exists>e. updateConversation eng d c u \<lparr>upd_title = Some t, upd_model = None\<rparr> now = Inl e"
  using assms
  by (cases "uuid_in eng c") (auto simp: updateConversation_def validOptionalText_def)

lemma updateConversation_keeps:
  assumes "updateConversation eng d c u upd now = Inr (r, d')"
  shows "messages d' = messages d \<and>
         map (\<lambda>cv. (conv_id cv, conv_userId cv)) (conversations d') =
         map (\<lambda>cv. (conv_id cv, conv_userId cv)) (conversations d)"
proof (cases "uuid_in eng c")
  case None
  with assms show ?thesis by (simp add: updateConversation_def)
next
  case (Some cid)
  with assms have
    "d' = d\<lparr>conversations :=
              map (\<lambda>cv. if conv_id cv = cid \<and> conv_userId cv = u
                        then applyUpdates upd now cv else cv) (conversations d)\<rparr>"
    by (simp add: updateConversation_def Let_def split: if_splits)
  then show ?thesis by (simp add: applyUpdates_def)
qed

subsection \<open>The gateway\<close>

lemma completionParams_model: "p_model (completionParams s h) = ''gpt-4o''"
proof -
  have "model (getModelAndPrompt s) = ''gpt-4o''"
    unfolding getModelAndPrompt_def by (rule model_routeLoop) (simp add: modelRouting_def)
  then show ?thesis by (simp add: completionParams_def Let_def)
qed

lemma readCompletion_throws:
  "readCompletion p (ApiThrows msg) = Inl (Error (''Failed to generate AI response: '' @ msg))"
  by (simp add: readCompletion_def)

lemma readCompletion_no_choice:
  "\<exists>reason. readCompletion p (ApiResponse [] usage) =
     Inl (Error (''Failed to generate AI response: '' @ reason))"
  by (simp add: readCompletion_def)

lemma readCompletion_choice:
  "readCompletion p (ApiResponse (ch # chs) usage) =
     Inr \<lparr>gen_content = (case ch of None \<Rightarrow> [] | Some s \<Rightarrow> s), gen_model = p_model p,
          gen_tokenCount = usage\<rparr>"
  by (simp add: readCompletion_def)

lemma readCompletion_Inr_iff:
  "readCompletion p a = Inr r \<longleftrightarrow>
   (\<exists>ch chs usage. a = ApiResponse (ch # chs) usage \<and>
      r = \<lparr>gen_content = (case ch of None \<Rightarrow> [] | Some s \<Rightarrow> s), gen_model = p_model p,
           gen_tokenCount = usage\<rparr>)"
  by (auto simp: readCompletion_def split: ApiResult.splits list.splits)

lemma generateResponse_eq:
  "generateResponse create log s h =
     (readCompletion (completionParams s h) (create (completionParams s h)),
      log @ [completionParams s h])"
  by (simp add: generateResponse_def Let_def)

lemma firstUserMessage_pair [simp]:
  "firstUserMessage
     [\<lparr>chat_role = User, chat_content = s\<rparr>, \<lparr>chat_role = Assistant, chat_content = a\<rparr>] = s"
  by (simp add: firstUserMessage_def)

lemma generateTitle_first:
  "s \<noteq> [] \<Longrightarrow>
   generateTitle create log
     [\<lparr>chat_role = User, chat_content = s\<rparr>, \<lparr>chat_role = Assistant, chat_content = a\<rparr>] =
   (readTitle (create (titleParams s)), log @ [titleParams s])"
  by (simp add: generateTitle_def)

lemma set_dropWhile_subset: "set (dropWhile P xs) \<subseteq> set xs"
  by (induction xs) auto

lemma validText_trim: "validText t \<Longrightarrow> validText (trim t)"
proof -
  assume v: "validText t"
  have "set (trim t) \<subseteq> set (dropWhile isWhiteSpace t)"
    unfolding trim_def using set_dropWhile_subset [of isWhiteSpace "rev (dropWhile isWhiteSpace t)"]
    by simp
  then have "set (trim t) \<subseteq> set t"
    using set_dropWhile_subset [of isWhiteSpace t] by blast
  with v show ?thesis by (auto simp: validText_def)
qed


subsection \<open>The handler, phase by phase\<close>

lemma World_swap: "w\<lparr>requests := r, db := d\<rparr> = w\<lparr>db := d, requests := r\<rparr>"
  by (rule World.equality) simp_all

lemma toChatMessage_eq:
  "toChatMessage = (\<lambda>m. \<lparr>chat_role = msg_role m, chat_content = msg_content m\<rparr>)"
  by (rule ext) (simp add: toChatMessage_def)

lemma notifyAndAnswer_sel [simp]:
  "fst (notifyAndAnswer w c um am) = \<lparr>status = 200, body = SentBody um am\<rparr>"
  "db (snd (notifyAndAnswer w c um am)) = db w"
  "requests (snd (notifyAndAnswer w c um am)) = requests w"
  "hub (snd (notifyAndAnswer w c um am)) = notifyNewMessage (hub w) c (NewMessageData um am)"
  by (simp_all add: notifyAndAnswer_def)

lemma finishExchange_later:
  "length msgs \<noteq> 1 \<Longrightarrow>
   finishExchange env w u c s msgs um r am = notifyAndAnswer w c um am"
  by (simp add: finishExchange_def)

lemma finishExchange_first:
  assumes "length msgs = 1" "s \<noteq> []" "uuid_in (engine env) c = Some cid" "validText u"
    "validText (readTitle (title_api env (titleParams s)))"
  shows "finishExchange env w u c s msgs um r am =
         notifyAndAnswer
           (w\<lparr>requests := requests w @ [titleParams s],
              db := (db w)\<lparr>conversations :=
                map (\<lambda>cv. if conv_id cv = cid \<and> conv_userId cv = u
                          then cv\<lparr>conv_title := readTitle (title_api env (titleParams s)),
                                 conv_updatedAt := title_time env\<rparr>
                          else cv)
                  (conversations (db w))\<rparr>\<rparr>) c um am"
  using assms
  by (simp add: finishExchange_def generateTitle_first updateConversation_Inr)

lemma finishExchange_title_refused:
  assumes "length msgs = 1" "s \<noteq> []" "\<not> validText (readTitle (title_api env (titleParams s)))"
  shows "finishExchange env w u c s msgs um r am =
         (failedToSend, w\<lparr>requests := requests w @ [titleParams s]\<rparr>)"
proof -
  obtain e where
    "updateConversation (engine env) (db w) c u
       \<lparr>upd_title = Some (readTitle (title_api env (titleParams s))), upd_model = None\<rparr>
       (title_time env) = Inl e"
    using updateConversation_rejects [OF assms(3)] by blast
  then show ?thesis
    using assms(1,2) by (simp add: finishExchange_def generateTitle_first)
qed

text \<open>What an answer 200 of \<open>finishExchange\<close> tells.\<close>

lemma finishExchange_sent:
  assumes "finishExchange env w u c s msgs um r am =
             (\<lparr>status = 200, body = SentBody x y\<rparr>, w')"
  shows "x = um \<and> y = am \<and> messages (db w') = messages (db w) \<and>
         map (\<lambda>cv. (conv_id cv, conv_userId cv)) (conversations (db w')) =
         map (\<lambda>cv. (conv_id cv, conv_userId cv)) (conversations (db w))"
proof (cases "length msgs = 1")
  case False
  with assms show ?thesis
    by (auto simp: finishExchange_def notifyAndAnswer_def)
next
  case True
  obtain title lg where g:
    "generateTitle (title_api env) (requests w)
       [\<lparr>chat_role = User, chat_content = s\<rparr>,
        \<lparr>chat_role = Assistant, chat_content = gen_content r\<rparr>] = (title, lg)"
    by (metis prod.collapse)
  show ?thesis
  proof (cases "updateConversation (engine env) (db w) c u
                  \<lparr>upd_title = Some title, upd_model = None\<rparr> (title_time env)")
    case (Inl e)
    with assms True g show ?thesis by (simp add: finishExchange_def failedToSend_def)
  next
    case (Inr res)
    obtain updated d3 where res: "res = (updated, d3)" by (cases res)
    have k: "messages d3 = messages (db w) \<and>
         map (\<lambda>cv. (conv_id cv, conv_userId cv)) (conversations d3) =
         map (\<lambda>cv. (conv_id cv, conv_userId cv)) (conversations (db w))"
      using updateConversation_keeps Inr res by blast
    from assms True g Inr res
    have "x = um \<and> y = am \<and> w' = (w\<lparr>requests := lg, db := d3\<rparr>)
            \<lparr>hub := notifyNewMessage (hub w) c (NewMessageData um am)\<rparr>"
      by (auto simp: finishExchange_def notifyAndAnswer_def)
    with k show ?thesis by simp
  qed
qed

lemma postMessage_accepted:
  assumes "uuid_in (engine env) c = Some cid" "validText u"
    "\<exists>conv \<in> set (conversations (db w)). conv_id conv = cid \<and> conv_userId conv = u"
    "s \<noteq> []" "validText s"
    "user_msg_id env \<notin> set (map msg_id (messages (db w)))"
    "um = \<lparr>msg_id = user_msg_id env, msg_conversationId = cid, msg_role = User,
           msg_content = s, msg_model = None, msg_tokenCount = None,
           msg_createdAt = user_msg_time env\<rparr>"
  shows "postMessage env w u c (JSString s) =
         generateAndStore env (w\<lparr>db := (db w)\<lparr>messages := messages (db w) @ [um]\<rparr>\<rparr>)
           u c s um"
proof -
  obtain conv where g: "getConversation (engine env) (db w) c u = Inr (Some conv)"
    using getConversation_found [OF assms(1,2,3)] ..
  have a: "addMessage (engine env) (db w)
             \<lparr>ins_conversationId = c, ins_role = User, ins_content = s, ins_model = None,
              ins_tokenCount = None\<rparr> (user_msg_id env) (user_msg_time env) =
           Inr (um, (db w)\<lparr>messages := messages (db w) @ [um]\<rparr>)"
    unfolding assms(7)
    by (rule addMessage_Inr [OF assms(1) assms(5) _ _ assms(6) assms(3)])
       (simp_all add: validOptionalText_def validInteger_def)
  show ?thesis
    using g a assms(4) by (simp add: postMessage_def truthy_def typeof_def stringOf_def)
qed

lemma generateAndStore_read:
  assumes "uuid_in (engine env) c = Some cid" "validText u"
    "\<exists>conv \<in> set (conversations (db w)). conv_id conv = cid \<and> conv_userId conv = u"
    "msgs = order_rows (engine env) (filter (\<lambda>m. msg_conversationId m = cid) (messages (db w)))"
    "h = map (\<lambda>m. \<lparr>chat_role = msg_role m, chat_content = msg_content m\<rparr>)
           (filter (\<lambda>m. msg_id m \<noteq> msg_id um) msgs)"
    "p = completionParams s h"
    "w1 = w\<lparr>requests := requests w @ [p]\<rparr>"
  shows "generateAndStore env w u c s um =
         (case readCompletion p (completion_api env p) of
            Inl e \<Rightarrow> (failedToSend, w1)
          | Inr r \<Rightarrow>
              (case addMessage (engine env) (db w)
                      \<lparr>ins_conversationId = c, ins_role = Assistant,
                       ins_content = gen_content r, ins_model = Some (gen_model r),
                       ins_tokenCount = gen_tokenCount r\<rparr>
                      (ai_msg_id env) (ai_msg_time env) of
                 Inl e \<Rightarrow> (failedToSend, w1)
               | Inr (am, d2) \<Rightarrow>
                   finishExchange env (w1\<lparr>db := d2\<rparr>) u c s msgs um r am))"
proof -
  obtain conv where g: "getConversation (engine env) (db w) c u = Inr (Some conv)"
    using getConversation_found [OF assms(1,2,3)] ..
  have m: "getConversationMessages (engine env) (db w) c u = Inr msgs"
    using g assms(1,4) by (simp add: getConversationMessages_def selectMessages_uuid)
  show ?thesis
    unfolding generateAndStore_def m assms(7) assms(6) assms(5)
    by (simp add: generateResponse_eq toChatMessage_eq split: sum.splits prod.splits)
qed

text \<open>
  The accepted submission up to the completion: the user's row is stored, the log is
  read, the request is made.
\<close>

lemma postMessage_generate:
  assumes "uuid_in (engine env) c = Some cid" "validText u"
    "\<exists>conv \<in> set (conversations (db w)). conv_id conv = cid \<and> conv_userId conv = u"
    "s \<noteq> []" "validText s"
    "user_msg_id env \<notin> set (map msg_id (messages (db w)))"
    "um = \<lparr>msg_id = user_msg_id env, msg_conversationId = cid, msg_role = User,
           msg_content = s, msg_model = None, msg_tokenCount = None,
           msg_createdAt = user_msg_time env\<rparr>"
    "msgs = order_rows (engine env)
              (filter (\<lambda>m. msg_conversationId m = cid) (messages (db w)) @ [um])"
    "h = map (\<lambda>m. \<lparr>chat_role = msg_role m, chat_content = msg_content m\<rparr>)
           (filter (\<lambda>m. msg_id m \<noteq> user_msg_id env) msgs)"
    "p = completionParams s h"
    "w1 = w\<lparr>db := (db w)\<lparr>messages := messages (db w) @ [um]\<rparr>,
            requests := requests w @ [p]\<rparr>"
  shows "postMessage env w u c (JSString s) =
         (case readCompletion p (completion_api env p) of
            Inl e \<Rightarrow> (failedToSend, w1)
          | Inr r \<Rightarrow>
              (case addMessage (engine env) (db w1)
                      \<lparr>ins_conversationId = c, ins_role = Assistant,
                       ins_content = gen_content r, ins_model = Some (gen_model r),
                       ins_tokenCount = gen_tokenCount r\<rparr>
                      (ai_msg_id env) (ai_msg_time env) of
                 Inl e \<Rightarrow> (failedToSend, w1)
               | Inr (am, d2) \<Rightarrow>
                   finishExchange env (w1\<lparr>db := d2\<rparr>) u c s msgs um r am))"
proof -
  let ?w0 = "w\<lparr>db := (db w)\<lparr>messages := messages (db w) @ [um]\<rparr>\<rparr>"
  have c: "msg_conversationId um = cid" and i: "msg_id um = user_msg_id env"
    by (simp_all add: assms(7))
  have ex: "\<exists>conv \<in> set (conversations (db ?w0)). conv_id conv = cid \<and> conv_userId conv = u"
    using assms(3) by simp
  have ms: "msgs = order_rows (engine env)
              (filter (\<lambda>m. msg_conversationId m = cid) (messages (db ?w0)))"
    using c by (simp add: assms(8))
  have hh: "h = map (\<lambda>m. \<lparr>chat_role = msg_role m, chat_content = msg_content m\<rparr>)
           (filter (\<lambda>m. msg_id m \<noteq> msg_id um) msgs)"
    by (simp add: assms(9) i)
  have w1: "w1 = ?w0\<lparr>requests := requests ?w0 @ [p]\<rparr>"
    by (simp add: assms(11))
  have d: "db w1 = db ?w0" by (simp add: assms(11))
  show ?thesis
    unfolding postMessage_accepted [OF assms(1-7)] d
    by (rule generateAndStore_read [OF assms(1,2) ex ms hh assms(10) w1])
qed

lemma generateTitle_log: "\<exists>rest. snd (generateTitle create log ms) = log @ rest"
  by (simp add: generateTitle_def)

lemma finishExchange_requests:
  "\<exists>rest. requests (snd (finishExchange env w u c s msgs um r am)) = requests w @ rest"
proof (cases "length msgs = 1")
  case False
  then show ?thesis by (simp add: finishExchange_later)
next
  case True
  obtain title lg where g:
    "generateTitle (title_api env) (requests w)
       [\<lparr>chat_role = User, chat_content = s\<rparr>,
        \<lparr>chat_role = Assistant, chat_content = gen_content r\<rparr>] = (title, lg)"
    by (metis prod.collapse)
  obtain rest where lg: "lg = requests w @ rest"
    using generateTitle_log [of "title_api env" "requests w"] g by (metis snd_conv)
  show ?thesis
  proof (cases "updateConversation (engine env) (db w) c u
                  \<lparr>upd_title = Some title, upd_model = None\<rparr> (title_time env)")
    case (Inl e)
    with True g lg show ?thesis by (simp add: finishExchange_def)
  next
    case (Inr res)
    obtain updated d3 where "res = (updated, d3)" by (cases res)
    with True g lg Inr show ?thesis by (simp add: finishExchange_def)
  qed
qed

lemma finishExchange_messages:
  "messages (db (snd (finishExchange env w u c s msgs um r am))) = messages (db w)"
proof (cases "length msgs = 1")
  case False
  then show ?thesis by (simp add: finishExchange_later)
next
  case True
  obtain title lg where g:
    "generateTitle (title_api env) (requests w)
       [\<lparr>chat_role = User, chat_content = s\<rparr>,
        \<lparr>chat_role = Assistant, chat_content = gen_content r\<rparr>] = (title, lg)"
    by (metis prod.collapse)
  show ?thesis
  proof (cases "updateConversation (engine env) (db w) c u
                  \<lparr>upd_title = Some title, upd_model = None\<rparr> (title_time env)")
    case (Inl e)
    with True g show ?thesis by (simp add: finishExchange_def)
  next
    case (Inr res)
    obtain updated d3 where res: "res = (updated, d3)" by (cases res)
    have "messages d3 = messages (db w)" using updateConversation_keeps Inr res by blast
    with True g Inr res show ?thesis by (simp add: finishExchange_def)
  qed
qed

text \<open>The request of an accepted submission is the next entry of the provider's log.\<close>

lemma postMessage_requests:
  assumes "uuid_in (engine env) c = Some cid" "validText u"
    "\<exists>conv \<in> set (conversations (db w)). conv_id conv = cid \<and> conv_userId conv = u"
    "s \<noteq> []" "validText s"
    "user_msg_id env \<notin> set (map msg_id (messages (db w)))"
    "um = \<lparr>msg_id = user_msg_id env, msg_conversationId = cid, msg_role = User,
           msg_content = s, msg_model = None, msg_tokenCount = None,
           msg_createdAt = user_msg_time env\<rparr>"
    "msgs = order_rows (engine env)
              (filter (\<lambda>m. msg_conversationId m = cid) (messages (db w)) @ [um])"
    "h = map (\<lambda>m. \<lparr>chat_role = msg_role m, chat_content = msg_content m\<rparr>)
           (filter (\<lambda>m. msg_id m \<noteq> user_msg_id env) msgs)"
  shows "\<exists>rest. requests (snd (postMessage env w u c (JSString s))) =
           requests w @ completionParams s h # rest"
proof -
  let ?p = "completionParams s h"
  let ?w1 = "w\<lparr>db := (db w)\<lparr>messages := messages (db w) @ [um]\<rparr>,
               requests := requests w @ [?p]\<rparr>"
  note pm = postMessage_generate [OF assms refl refl]
  show ?thesis
  proof (cases "readCompletion ?p (completion_api env ?p)")
    case (Inl e)
    then show ?thesis by (simp add: pm)
  next
    case (Inr r)
    show ?thesis
    proof (cases "addMessage (engine env) (db ?w1)
                      \<lparr>ins_conversationId = c, ins_role = Assistant,
                       ins_content = gen_content r, ins_model = Some (gen_model r),
                       ins_tokenCount = gen_tokenCount r\<rparr>
                      (ai_msg_id env) (ai_msg_time env)")
      case (Inl e)
      with Inr show ?thesis by (simp add: pm)
    next
      case am: (Inr res)
      obtain am d2 where res: "res = (am, d2)" by (cases res)
      obtain rest where
        "requests (snd (finishExchange env (?w1\<lparr>db := d2\<rparr>) u c s msgs um r am)) =
           requests (?w1\<lparr>db := d2\<rparr>) @ rest"
        using finishExchange_requests by blast
      with Inr am res show ?thesis by (simp add: pm)
    qed
  qed
qed

subsection \<open>The order of the log\<close>

text \<open>
  What \<^verbatim>\<open>ORDER BY\<close> promises of the rows it returns: they are the selected rows,
  and their timestamps do not decrease. The log read after the insert, without the new
  row, is then the log of before in such an order.
\<close>

lemma log_without_new_row:
  assumes "\<forall>rows. mset (order_rows eng rows) = mset rows
             \<and> sorted (map msg_createdAt (order_rows eng rows))"
    "uid \<notin> set (map msg_id rows)" "msg_id um = uid"
    "lg = filter (\<lambda>m. msg_id m \<noteq> uid) (order_rows eng (rows @ [um]))"
  shows "mset lg = mset rows \<and> sorted (map msg_createdAt lg)"
proof
  have "mset lg = filter_mset (\<lambda>m. msg_id m \<noteq> uid) (mset (rows @ [um]))"
    using assms(1) by (simp add: assms(4))
  also have "\<dots> = filter_mset (\<lambda>m. msg_id m \<noteq> uid) (mset rows)"
    using assms(3) by simp
  also have "\<dots> = mset rows"
    using assms(2) by (auto simp: filter_mset_eq_conv)
  finally show "mset lg = mset rows" .
  show "sorted (map msg_createdAt lg)"
    unfolding assms(4) using assms(1) by (simp add: sorted_filter)
qed



lemma sorted_last_greatest:
  assumes "sorted (map f lg)" "x \<in> set lg"
  shows "(f x :: nat) \<le> f (last lg)"
proof -
  have ne: "lg \<noteq> []" using assms(2) by auto
  then have "lg = butlast lg @ [last lg]" by simp
  then have "sorted (map f (butlast lg @ [last lg]))" using assms(1) by simp
  then have "\<forall>y \<in> set (butlast lg). f y \<le> f (last lg)"
    by (simp add: sorted_append)
  moreover have "x \<in> set (butlast lg) \<or> x = last lg"
    using assms(2) ne by (metis Un_iff append_butlast_last_id empty_iff empty_set insert_iff list.set(2) set_append)
  ultimately show ?thesis by auto
qed

lemma latest_is_last:
  assumes "sorted (map f lg)" "x \<in> set lg" "\<forall>y \<in> set lg. y \<noteq> x \<longrightarrow> (f y :: nat) < f x"
  shows "last lg = x"
proof (rule ccontr)
  assume n: "last lg \<noteq> x"
  have "lg \<noteq> []" using assms(2) by auto
  then have "last lg \<in> set lg" by simp
  with n assms(3) have "f (last lg) < f x" by blast
  moreover have "f x \<le> f (last lg)" by (rule sorted_last_greatest [OF assms(1,2)])
  ultimately show False by simp
qed

lemma last_window:
  "lg \<noteq> [] \<Longrightarrow> drop (length lg - 10) lg \<noteq> [] \<and> last (drop (length lg - 10) lg) = last lg"
  by (cases lg) (simp_all add: last_drop)

lemma completionParams_eq:
  "completionParams s h =
     \<lparr>p_model = model (getModelAndPrompt s),
      p_messages =
        (case systemPrompt (getModelAndPrompt s) of
           None \<Rightarrow> []
         | Some p \<Rightarrow> if p = [] then [] else [\<lparr>chat_role = System, chat_content = p\<rparr>])
        @ drop (length h - 10) h
        @ [\<lparr>chat_role = User, chat_content = cleanedMessage (getModelAndPrompt s)\<rparr>],
      p_temperature_tenths = 7, p_max_tokens = 4000\<rparr>"
  by (simp add: completionParams_def Let_def)

text \<open>The three ways an accepted submission goes on after the completion request.\<close>

lemma postMessage_generation_failed:
  assumes "uuid_in (engine env) c = Some cid" "validText u"
    "\<exists>conv \<in> set (conversations (db w)). conv_id conv = cid \<and> conv_userId conv = u"
    "s \<noteq> []" "validText s"
    "user_msg_id env \<notin> set (map msg_id (messages (db w)))"
    "um = \<lparr>msg_id = user_msg_id env, msg_conversationId = cid, msg_role = User,
           msg_content = s, msg_model = None, msg_tokenCount = None,
           msg_createdAt = user_msg_time env\<rparr>"
    "msgs = order_rows (engine env)
              (filter (\<lambda>m. msg_conversationId m = cid) (messages (db w)) @ [um])"
    "h = map (\<lambda>m. \<lparr>chat_role = msg_role m, chat_content = msg_content m\<rparr>)
           (filter (\<lambda>m. msg_id m \<noteq> user_msg_id env) msgs)"
    "p = completionParams s h"
    "readCompletion p (completion_api env p) = Inl e"
  shows "postMessage env w u c (JSString s) =
         (failedToSend,
          w\<lparr>db := (db w)\<lparr>messages := messages (db w) @ [um]\<rparr>,
            requests := requests w @ [p]\<rparr>)"
  using assms(11) by (simp add: postMessage_generate [OF assms(1-10) refl])

lemma postMessage_insert_refused:
  assumes "uuid_in (engine env) c = Some cid" "validText u"
    "\<exists>conv \<in> set (conversations (db w)). conv_id conv = cid \<and> conv_userId conv = u"
    "s \<noteq> []" "validText s"
    "user_msg_id env \<notin> set (map msg_id (messages (db w)))"
    "um = \<lparr>msg_id = user_msg_id env, msg_conversationId = cid, msg_role = User,
           msg_content = s, msg_model = None, msg_tokenCount = None,
           msg_createdAt = user_msg_time env\<rparr>"
    "msgs = order_rows (engine env)
              (filter (\<lambda>m. msg_conversationId m = cid) (messages (db w)) @ [um])"
    "h = map (\<lambda>m. \<lparr>chat_role = msg_role m, chat_content = msg_content m\<rparr>)
           (filter (\<lambda>m. msg_id m \<noteq> user_msg_id env) msgs)"
    "p = completionParams s h"
    "completion_api env p = ApiResponse (ch # chs) usage"
    "\<not> validText (case ch of None \<Rightarrow> [] | Some x \<Rightarrow> x) \<or> \<not> validInteger usage"
  shows "postMessage env w u c (JSString s) =
         (failedToSend,
          w\<lparr>db := (db w)\<lparr>messages := messages (db w) @ [um]\<rparr>,
            requests := requests w @ [p]\<rparr>)"
proof -
  let ?w1 = "w\<lparr>db := (db w)\<lparr>messages := messages (db w) @ [um]\<rparr>,
               requests := requests w @ [p]\<rparr>"
  obtain e where
    "addMessage (engine env) (db ?w1)
       \<lparr>ins_conversationId = c, ins_role = Assistant,
        ins_content = (case ch of None \<Rightarrow> [] | Some x \<Rightarrow> x), ins_model = Some (p_model p),
        ins_tokenCount = usage\<rparr> (ai_msg_id env) (ai_msg_time env) = Inl e"
    using addMessage_rejects [of "case ch of None \<Rightarrow> [] | Some x \<Rightarrow> x" "Some (p_model p)" usage]
      assms(12) by blast
  then show ?thesis
    using assms(11)
    by (simp add: postMessage_generate [OF assms(1-10) refl] readCompletion_choice)
qed

lemma postMessage_stored:
  assumes "uuid_in (engine env) c = Some cid" "validText u"
    "\<exists>conv \<in> set (conversations (db w)). conv_id conv = cid \<and> conv_userId conv = u"
    "s \<noteq> []" "validText s"
    "user_msg_id env \<notin> set (map msg_id (messages (db w)))"
    "um = \<lparr>msg_id = user_msg_id env, msg_conversationId = cid, msg_role = User,
           msg_content = s, msg_model = None, msg_tokenCount = None,
           msg_createdAt = user_msg_time env\<rparr>"
    "msgs = order_rows (engine env)
              (filter (\<lambda>m. msg_conversationId m = cid) (messages (db w)) @ [um])"
    "h = map (\<lambda>m. \<lparr>chat_role = msg_role m, chat_content = msg_content m\<rparr>)
           (filter (\<lambda>m. msg_id m \<noteq> user_msg_id env) msgs)"
    "p = completionParams s h"
    "completion_api env p = ApiResponse (ch # chs) usage"
    "a = (case ch of None \<Rightarrow> [] | Some x \<Rightarrow> x)" "validText a" "validInteger usage"
    "ai_msg_id env \<notin> set (map msg_id (messages (db w)))"
    "ai_msg_id env \<noteq> user_msg_id env"
    "am = \<lparr>msg_id = ai_msg_id env, msg_conversationId = cid, msg_role = Assistant,
           msg_content = a, msg_model = Some ''gpt-4o'', msg_tokenCount = usage,
           msg_createdAt = ai_msg_time env\<rparr>"
  shows "postMessage env w u c (JSString s) =
         finishExchange env
           (w\<lparr>db := (db w)\<lparr>messages := messages (db w) @ [um, am]\<rparr>,
              requests := requests w @ [p]\<rparr>)
           u c s msgs um
           \<lparr>gen_content = a, gen_model = ''gpt-4o'', gen_tokenCount = usage\<rparr> am"
proof -
  let ?w1 = "w\<lparr>db := (db w)\<lparr>messages := messages (db w) @ [um]\<rparr>,
               requests := requests w @ [p]\<rparr>"
  have r: "readCompletion p (completion_api env p) =
             Inr \<lparr>gen_content = a, gen_model = ''gpt-4o'', gen_tokenCount = usage\<rparr>"
    using assms(11) unfolding assms(10) assms(12)
    by (simp add: readCompletion_choice completionParams_model)
  have fresh: "ai_msg_id env \<notin> set (map msg_id (messages (db ?w1)))"
    using assms(15,16) by (simp add: assms(7))
  have ex: "\<exists>conv \<in> set (conversations (db ?w1)). conv_id conv = cid \<and> conv_userId conv = u"
    using assms(3) by simp
  have vm: "validOptionalText (Some ''gpt-4o'')"
    by (simp add: validOptionalText_def validText_def)
  have a: "addMessage (engine env) (db ?w1)
             \<lparr>ins_conversationId = c, ins_role = Assistant, ins_content = a,
              ins_model = Some ''gpt-4o'', ins_tokenCount = usage\<rparr>
             (ai_msg_id env) (ai_msg_time env) =
           Inr (am, (db ?w1)\<lparr>messages := messages (db ?w1) @ [am]\<rparr>)"
    unfolding assms(17)
    by (rule addMessage_Inr [OF assms(1) assms(13) vm assms(14) fresh ex])
  have a': "addMessage (engine env) ((db w)\<lparr>messages := messages (db w) @ [um]\<rparr>)
             \<lparr>ins_conversationId = c, ins_role = Assistant, ins_content = a,
              ins_model = Some ''gpt-4o'', ins_tokenCount = usage\<rparr>
             (ai_msg_id env) (ai_msg_time env) =
           Inr (am, (db w)\<lparr>messages := messages (db w) @ [um, am]\<rparr>)"
    using a by simp
  show ?thesis
    by (simp add: postMessage_generate [OF assms(1-10) refl] r a' World_swap)
qed

subsection \<open>Rejected submissions\<close>




subsection \<open>The window of history\<close>



subsection \<open>Failure of the completion\<close>

text \<open>
  Claim C5. Let a submission be accepted: the identifier is a uuid, the conversation is
  the user's, the content is a non-empty string the database takes, the identifier drawn
  for the user's row is new. Let \<open>h\<close> be the history the handler passes on: the log
  read after the insert, without the new row. When \<^verbatim>\<open>generateResponse\<close> throws on it,
  the handler answers 500 \<^verbatim>\<open>Failed to send message\<close>, which no successful answer
  equals; the messages table has got the user's message and nothing else, and the
  conversations and the hub are as before.
\<close>

theorem generation_failure_keeps_user_message:
  assumes "uuid_in (engine env) c = Some cid" "validText u"
    "\<exists>conv \<in> set (conversations (db w)). conv_id conv = cid \<and> conv_userId conv = u"
    "s \<noteq> []" "validText s"
    "user_msg_id env \<notin> set (map msg_id (messages (db w)))"
    "um = \<lparr>msg_id = user_msg_id env, msg_conversationId = cid, msg_role = User,
           msg_content = s, msg_model = None, msg_tokenCount = None,
           msg_createdAt = user_msg_time env\<rparr>"
    "msgs = order_rows (engine env)
              (filter (\<lambda>m. msg_conversationId m = cid) (messages (db w)) @ [um])"
    "h = map (\<lambda>m. \<lparr>chat_role = msg_role m, chat_content = msg_content m\<rparr>)
           (filter (\<lambda>m. msg_id m \<noteq> user_msg_id env) msgs)"
    "fst (generateResponse (completion_api env) (requests w) s h) = Inl e"
  shows "postMessage env w u c (JSString s) =
           (\<lparr>status = 500, body = MessageBody ''Failed to send message''\<rparr>,
            w\<lparr>db := (db w)\<lparr>messages := messages (db w) @ [um]\<rparr>,
              requests := requests w @ [completionParams s h]\<rparr>) \<and>
         (\<forall>x y. fst (postMessage env w u c (JSString s)) \<noteq>
                  \<lparr>status = 200, body = SentBody x y\<rparr>)"
proof -
  have "readCompletion (completionParams s h) (completion_api env (completionParams s h)) = Inl e"
    using assms(10) by (simp add: generateResponse_eq)
  from postMessage_generation_failed [OF assms(1-9) refl this]
  show ?thesis by (simp add: failedToSend_def)
qed

theorem generation_failure_keeps_user_message_witness:
  "postMessage exEnvThrows exWorld ''alice'' exCid (JSString ''hello'') =
     (\<lparr>status = 500, body = MessageBody ''Failed to send message''\<rparr>,
      exWorld\<lparr>db := (db exWorld)\<lparr>messages :=
                  messages (db exWorld) @
                  [\<lparr>msg_id = ''a0000000-0000-4000-8000-000000000000'',
                    msg_conversationId = exCid, msg_role = User, msg_content = ''hello'',
                    msg_model = None, msg_tokenCount = None, msg_createdAt = 20\<rparr>]\<rparr>,
        requests := requests exWorld @ [completionParams ''hello'' []]\<rparr>) \<and>
   (\<forall>x y. fst (postMessage exEnvThrows exWorld ''alice'' exCid (JSString ''hello'')) \<noteq>
            \<lparr>status = 200, body = SentBody x y\<rparr>)"
proof -
  let ?um = "\<lparr>msg_id = ''a0000000-0000-4000-8000-000000000000'',
              msg_conversationId = exCid, msg_role = User, msg_content = ''hello'',
              msg_model = None, msg_tokenCount = None, msg_createdAt = 20\<rparr>"
  have h1: "uuid_in (engine exEnvThrows) exCid = Some exCid" by code_simp
  have h2: "validText ''alice''" by (simp add: validText_def)
  have h3: "\<exists>conv \<in> set (conversations (db exWorld)).
              conv_id conv = exCid \<and> conv_userId conv = ''alice''"
    by (simp add: exWorld_def exConversation_def)
  have h4: "''hello'' \<noteq> []" by simp
  have h5: "validText ''hello''" by (simp add: validText_def)
  have h6: "user_msg_id exEnvThrows \<notin> set (map msg_id (messages (db exWorld)))"
    by (simp add: exWorld_def)
  have h7: "?um = \<lparr>msg_id = user_msg_id exEnvThrows, msg_conversationId = exCid,
                   msg_role = User, msg_content = ''hello'', msg_model = None,
                   msg_tokenCount = None, msg_createdAt = user_msg_time exEnvThrows\<rparr>"
    by code_simp
  have h8: "[?um] = order_rows (engine exEnvThrows)
              (filter (\<lambda>m. msg_conversationId m = exCid) (messages (db exWorld)) @ [?um])"
    by code_simp
  have h9: "[] = map (\<lambda>m. \<lparr>chat_role = msg_role m, chat_content = msg_content m\<rparr>)
                   (filter (\<lambda>m. msg_id m \<noteq> user_msg_id exEnvThrows) [?um])"
    by code_simp
  have h10: "fst (generateResponse (completion_api exEnvThrows) (requests exWorld) ''hello'' []) =
               Inl (Error ''Failed to generate AI response: timeout'')"
    by code_simp
  show ?thesis
    by (rule generation_failure_keeps_user_message [OF h1 h2 h3 h4 h5 h6 h7 h8 h9 h10])
qed

text \<open>
  Claim C1, as the code has it. For an accepted submission (as in claim C5), with \<open>p\<close>
  the request the handler makes:
  \<^item> when the provider call throws or its response has no choice,
    \<^verbatim>\<open>generateResponse\<close> throws an error whose message starts with
    \<^verbatim>\<open>Failed to generate AI response:\<close>, the handler answers 500 and only the user's
    message has been stored;
  \<^item> when the provider returns an empty completion (the content of the first choice is
    \<^verbatim>\<open>null\<close> or the empty string) with a token count the column takes, an assistant
    message with empty content is stored after the user's message, and the handler
    answers 200 with the pair, unless this was the first exchange and the database
    refuses the title: then it answers 500, with both messages stored;
  \<^item> when the token count of the response does not fit the column, the insert of the
    assistant message throws: the handler answers 500 and only the user's message has
    been stored.
\<close>

theorem provider_failure_or_empty_completion:
  assumes "uuid_in (engine env) c = Some cid" "validText u"
    "\<exists>conv \<in> set (conversations (db w)). conv_id conv = cid \<and> conv_userId conv = u"
    "s \<noteq> []" "validText s"
    "user_msg_id env \<notin> set (map msg_id (messages (db w)))"
    "um = \<lparr>msg_id = user_msg_id env, msg_conversationId = cid, msg_role = User,
           msg_content = s, msg_model = None, msg_tokenCount = None,
           msg_createdAt = user_msg_time env\<rparr>"
    "msgs = order_rows (engine env)
              (filter (\<lambda>m. msg_conversationId m = cid) (messages (db w)) @ [um])"
    "h = map (\<lambda>m. \<lparr>chat_role = msg_role m, chat_content = msg_content m\<rparr>)
           (filter (\<lambda>m. msg_id m \<noteq> user_msg_id env) msgs)"
    "p = completionParams s h"
  shows
    "(completion_api env p = ApiThrows msg \<or> completion_api env p = ApiResponse [] usage \<longrightarrow>
        (\<exists>reason. fst (generateResponse (completion_api env) (requests w) s h) =
           Inl (Error (''Failed to generate AI response: '' @ reason))) \<and>
        postMessage env w u c (JSString s) =
          (\<lparr>status = 500, body = MessageBody ''Failed to send message''\<rparr>,
           w\<lparr>db := (db w)\<lparr>messages := messages (db w) @ [um]\<rparr>,
             requests := requests w @ [p]\<rparr>)) \<and>
     (completion_api env p = ApiResponse (ch # chs) usage \<and> (ch = None \<or> ch = Some []) \<and>
      validInteger usage \<and>
      ai_msg_id env \<notin> set (map msg_id (messages (db w))) \<and>
      ai_msg_id env \<noteq> user_msg_id env \<and>
      am = \<lparr>msg_id = ai_msg_id env, msg_conversationId = cid, msg_role = Assistant,
            msg_content = [], msg_model = Some ''gpt-4o'', msg_tokenCount = usage,
            msg_createdAt = ai_msg_time env\<rparr> \<longrightarrow>
        messages (db (snd (postMessage env w u c (JSString s)))) =
          messages (db w) @ [um, am] \<and>
        (length msgs \<noteq> 1 \<or> validText (readTitle (title_api env (titleParams s))) \<longrightarrow>
           fst (postMessage env w u c (JSString s)) =
             \<lparr>status = 200, body = SentBody um am\<rparr>) \<and>
        (length msgs = 1 \<and> \<not> validText (readTitle (title_api env (titleParams s))) \<longrightarrow>
           fst (postMessage env w u c (JSString s)) =
             \<lparr>status = 500, body = MessageBody ''Failed to send message''\<rparr>)) \<and>
     (completion_api env p = ApiResponse (ch # chs) usage \<and> \<not> validInteger usage \<longrightarrow>
        postMessage env w u c (JSString s) =
          (\<lparr>status = 500, body = MessageBody ''Failed to send message''\<rparr>,
           w\<lparr>db := (db w)\<lparr>messages := messages (db w) @ [um]\<rparr>,
             requests := requests w @ [p]\<rparr>))"
proof (intro conjI impI)
  assume a: "completion_api env p = ApiThrows msg \<or> completion_api env p = ApiResponse [] usage"
  then obtain reason where
    r: "readCompletion p (completion_api env p) =
          Inl (Error (''Failed to generate AI response: '' @ reason))"
    using readCompletion_throws readCompletion_no_choice by metis
  then show "\<exists>reason. fst (generateResponse (completion_api env) (requests w) s h) =
           Inl (Error (''Failed to generate AI response: '' @ reason))"
    by (auto simp: generateResponse_eq assms(10))
  from postMessage_generation_failed [OF assms r]
  show "postMessage env w u c (JSString s) =
          (\<lparr>status = 500, body = MessageBody ''Failed to send message''\<rparr>,
           w\<lparr>db := (db w)\<lparr>messages := messages (db w) @ [um]\<rparr>,
             requests := requests w @ [p]\<rparr>)"
    by (simp add: failedToSend_def)
next
  assume a: "completion_api env p = ApiResponse (ch # chs) usage \<and> \<not> validInteger usage"
  then have "completion_api env p = ApiResponse (ch # chs) usage"
    and "\<not> validText (case ch of None \<Rightarrow> [] | Some x \<Rightarrow> x) \<or> \<not> validInteger usage"
    by simp_all
  from postMessage_insert_refused [OF assms this]
  show "postMessage env w u c (JSString s) =
          (\<lparr>status = 500, body = MessageBody ''Failed to send message''\<rparr>,
           w\<lparr>db := (db w)\<lparr>messages := messages (db w) @ [um]\<rparr>,
             requests := requests w @ [p]\<rparr>)"
    by (simp add: failedToSend_def)
next
  let ?w2 = "w\<lparr>db := (db w)\<lparr>messages := messages (db w) @ [um, am]\<rparr>,
               requests := requests w @ [p]\<rparr>"
  let ?r = "\<lparr>gen_content = [], gen_model = ''gpt-4o'', gen_tokenCount = usage\<rparr>"
  assume a: "completion_api env p = ApiResponse (ch # chs) usage \<and> (ch = None \<or> ch = Some []) \<and>
      validInteger usage \<and>
      ai_msg_id env \<notin> set (map msg_id (messages (db w))) \<and>
      ai_msg_id env \<noteq> user_msg_id env \<and>
      am = \<lparr>msg_id = ai_msg_id env, msg_conversationId = cid, msg_role = Assistant,
            msg_content = [], msg_model = Some ''gpt-4o'', msg_tokenCount = usage,
            msg_createdAt = ai_msg_time env\<rparr>"
  then have e: "[] = (case ch of None \<Rightarrow> [] | Some x \<Rightarrow> x)" by auto
  have v: "validText []" by (simp add: validText_def)
  from a have a1: "completion_api env p = ApiResponse (ch # chs) usage"
    and a2: "validInteger usage"
    and a3: "ai_msg_id env \<notin> set (map msg_id (messages (db w)))"
    and a4: "ai_msg_id env \<noteq> user_msg_id env"
    and a5: "am = \<lparr>msg_id = ai_msg_id env, msg_conversationId = cid, msg_role = Assistant,
            msg_content = [], msg_model = Some ''gpt-4o'', msg_tokenCount = usage,
            msg_createdAt = ai_msg_time env\<rparr>"
    by simp_all
  note st = postMessage_stored [OF assms a1 e v a2 a3 a4 a5]
  show "messages (db (snd (postMessage env w u c (JSString s)))) = messages (db w) @ [um, am]"
    unfolding st finishExchange_messages by simp
  show "fst (postMessage env w u c (JSString s)) = \<lparr>status = 200, body = SentBody um am\<rparr>"
    if t: "length msgs \<noteq> 1 \<or> validText (readTitle (title_api env (titleParams s)))"
  proof (cases "length msgs = 1")
    case False
    then show ?thesis unfolding st by (simp add: finishExchange_later)
  next
    case True
    with t have "validText (readTitle (title_api env (titleParams s)))" by simp
    from finishExchange_first [OF True assms(4) assms(1) assms(2) this]
    show ?thesis unfolding st by simp
  qed
  show "fst (postMessage env w u c (JSString s)) =
          \<lparr>status = 500, body = MessageBody ''Failed to send message''\<rparr>"
    if t: "length msgs = 1 \<and> \<not> validText (readTitle (title_api env (titleParams s)))"
    unfolding st using finishExchange_title_refused [of msgs s env] t assms(4)
    by (simp add: failedToSend_def)
qed

theorem provider_failure_or_empty_completion_witness:
  "postMessage exEnvThrows exWorld ''alice'' exCid (JSString ''hello'') =
     (\<lparr>status = 500, body = MessageBody ''Failed to send message''\<rparr>,
      exWorld\<lparr>db := (db exWorld)\<lparr>messages :=
                  messages (db exWorld) @
                  [\<lparr>msg_id = ''a0000000-0000-4000-8000-000000000000'',
                    msg_conversationId = exCid, msg_role = User, msg_content = ''hello'',
                    msg_model = None, msg_tokenCount = None, msg_createdAt = 20\<rparr>]\<rparr>,
        requests := requests exWorld @ [completionParams ''hello'' []]\<rparr>) \<and>
   fst (postMessage exEnvEmpty exWorld ''alice'' exCid (JSString ''hello'')) =
     \<lparr>status = 200,
      body = SentBody
        \<lparr>msg_id = ''a0000000-0000-4000-8000-000000000000'',
         msg_conversationId = exCid, msg_role = User, msg_content = ''hello'',
         msg_model = None, msg_tokenCount = None, msg_createdAt = 20\<rparr>
        \<lparr>msg_id = ''b0000000-0000-4000-8000-000000000000'',
         msg_conversationId = exCid, msg_role = Assistant, msg_content = [],
         msg_model = Some ''gpt-4o'', msg_tokenCount = None, msg_createdAt = 21\<rparr>\<rparr> \<and>
   messages (db (snd (postMessage exEnvEmpty exWorld ''alice'' exCid (JSString ''hello'')))) =
     messages (db exWorld) @
     [\<lparr>msg_id = ''a0000000-0000-4000-8000-000000000000'',
       msg_conversationId = exCid, msg_role = User, msg_content = ''hello'',
       msg_model = None, msg_tokenCount = None, msg_createdAt = 20\<rparr>,
      \<lparr>msg_id = ''b0000000-0000-4000-8000-000000000000'',
       msg_conversationId = exCid, msg_role = Assistant, msg_content = [],
       msg_model = Some ''gpt-4o'', msg_tokenCount = None, msg_createdAt = 21\<rparr>] \<and>
   postMessage
       (exEnvEmpty\<lparr>completion_api := (\<lambda>p. ApiResponse [Some []] (Some 2147483648))\<rparr>)
       exWorld ''alice'' exCid (JSString ''hello'') =
     (\<lparr>status = 500, body = MessageBody ''Failed to send message''\<rparr>,
      exWorld\<lparr>db := (db exWorld)\<lparr>messages :=
                  messages (db exWorld) @
                  [\<lparr>msg_id = ''a0000000-0000-4000-8000-000000000000'',
                    msg_conversationId = exCid, msg_role = User, msg_content = ''hello'',
                    msg_model = None, msg_tokenCount = None, msg_createdAt = 20\<rparr>]\<rparr>,
        requests := requests exWorld @ [completionParams ''hello'' []]\<rparr>)"
proof -
  let ?um = "\<lparr>msg_id = ''a0000000-0000-4000-8000-000000000000'',
              msg_conversationId = exCid, msg_role = User, msg_content = ''hello'',
              msg_model = None, msg_tokenCount = None, msg_createdAt = 20\<rparr>"
  let ?am = "\<lparr>msg_id = ''b0000000-0000-4000-8000-000000000000'',
              msg_conversationId = exCid, msg_role = Assistant, msg_content = [],
              msg_model = Some ''gpt-4o'', msg_tokenCount = None, msg_createdAt = 21\<rparr>"
  let ?big = "exEnvEmpty\<lparr>completion_api := (\<lambda>p. ApiResponse [Some []] (Some 2147483648))\<rparr>"
  have h2: "validText ''alice''" by (simp add: validText_def)
  have h3: "\<exists>conv \<in> set (conversations (db exWorld)).
              conv_id conv = exCid \<and> conv_userId conv = ''alice''"
    by (simp add: exWorld_def exConversation_def)
  have h4: "''hello'' \<noteq> []" by simp
  have h5: "validText ''hello''" by (simp add: validText_def)
  have t1: "uuid_in (engine exEnvThrows) exCid = Some exCid" by code_simp
  have t6: "user_msg_id exEnvThrows \<notin> set (map msg_id (messages (db exWorld)))"
    by (simp add: exWorld_def)
  have t7: "?um = \<lparr>msg_id = user_msg_id exEnvThrows, msg_conversationId = exCid,
                   msg_role = User, msg_content = ''hello'', msg_model = None,
                   msg_tokenCount = None, msg_createdAt = user_msg_time exEnvThrows\<rparr>"
    by code_simp
  have t8: "[?um] = order_rows (engine exEnvThrows)
              (filter (\<lambda>m. msg_conversationId m = exCid) (messages (db exWorld)) @ [?um])"
    by code_simp
  have t9: "[] = map (\<lambda>m. \<lparr>chat_role = msg_role m, chat_content = msg_content m\<rparr>)
                   (filter (\<lambda>m. msg_id m \<noteq> user_msg_id exEnvThrows) [?um])"
    by code_simp
  have t: "completion_api exEnvThrows (completionParams ''hello'' []) = ApiThrows ''timeout''"
    by (simp add: exEnvThrows_def)
  have e1: "uuid_in (engine exEnvEmpty) exCid = Some exCid" by code_simp
  have e6: "user_msg_id exEnvEmpty \<notin> set (map msg_id (messages (db exWorld)))"
    by (simp add: exWorld_def)
  have e7: "?um = \<lparr>msg_id = user_msg_id exEnvEmpty, msg_conversationId = exCid,
                   msg_role = User, msg_content = ''hello'', msg_model = None,
                   msg_tokenCount = None, msg_createdAt = user_msg_time exEnvEmpty\<rparr>"
    by code_simp
  have e8: "[?um] = order_rows (engine exEnvEmpty)
              (filter (\<lambda>m. msg_conversationId m = exCid) (messages (db exWorld)) @ [?um])"
    by code_simp
  have e9: "[] = map (\<lambda>m. \<lparr>chat_role = msg_role m, chat_content = msg_content m\<rparr>)
                   (filter (\<lambda>m. msg_id m \<noteq> user_msg_id exEnvEmpty) [?um])"
    by code_simp
  have ea: "?am = \<lparr>msg_id = ai_msg_id exEnvEmpty, msg_conversationId = exCid,
                  msg_role = Assistant, msg_content = [], msg_model = Some ''gpt-4o'',
                  msg_tokenCount = None, msg_createdAt = ai_msg_time exEnvEmpty\<rparr>"
    by code_simp
  have ef: "ai_msg_id exEnvEmpty \<noteq> user_msg_id exEnvEmpty" by code_simp
  have eb: "completion_api exEnvEmpty (completionParams ''hello'' []) =
             ApiResponse [Some []] None \<and> (Some [] = None \<or> Some ([]::string) = Some []) \<and>
           validInteger None \<and>
           ai_msg_id exEnvEmpty \<notin> set (map msg_id (messages (db exWorld)))"
    by (simp add: exEnvEmpty_def exWorld_def validInteger_def)
  note e = eb ef ea
  have et: "validText (readTitle (title_api exEnvEmpty (titleParams ''hello'')))"
    by code_simp
  have b1: "uuid_in (engine ?big) exCid = Some exCid" by code_simp
  have b6: "user_msg_id ?big \<notin> set (map msg_id (messages (db exWorld)))"
    by (simp add: exWorld_def)
  have b7: "?um = \<lparr>msg_id = user_msg_id ?big, msg_conversationId = exCid,
                   msg_role = User, msg_content = ''hello'', msg_model = None,
                   msg_tokenCount = None, msg_createdAt = user_msg_time ?big\<rparr>"
    by code_simp
  have b8: "[?um] = order_rows (engine ?big)
              (filter (\<lambda>m. msg_conversationId m = exCid) (messages (db exWorld)) @ [?um])"
    by code_simp
  have b9: "[] = map (\<lambda>m. \<lparr>chat_role = msg_role m, chat_content = msg_content m\<rparr>)
                   (filter (\<lambda>m. msg_id m \<noteq> user_msg_id ?big) [?um])"
    by code_simp
  have b: "completion_api ?big (completionParams ''hello'' []) =
             ApiResponse [Some []] (Some 2147483648) \<and> \<not> validInteger (Some 2147483648)"
    by (simp add: validInteger_def)
  have c1: "postMessage exEnvThrows exWorld ''alice'' exCid (JSString ''hello'') =
     (\<lparr>status = 500, body = MessageBody ''Failed to send message''\<rparr>,
      exWorld\<lparr>db := (db exWorld)\<lparr>messages := messages (db exWorld) @ [?um]\<rparr>,
        requests := requests exWorld @ [completionParams ''hello'' []]\<rparr>)"
    using provider_failure_or_empty_completion [OF t1 h2 h3 h4 h5 t6 t7 t8 t9 refl,
        of "''timeout''"] t
    by blast
  have c2: "fst (postMessage exEnvEmpty exWorld ''alice'' exCid (JSString ''hello'')) =
              \<lparr>status = 200, body = SentBody ?um ?am\<rparr> \<and>
            messages (db (snd (postMessage exEnvEmpty exWorld ''alice'' exCid
              (JSString ''hello'')))) = messages (db exWorld) @ [?um, ?am]"
    using provider_failure_or_empty_completion [OF e1 h2 h3 h4 h5 e6 e7 e8 e9 refl,
        of _ None "Some []" "[]" ?am] e et
    by blast
  have c3: "postMessage ?big exWorld ''alice'' exCid (JSString ''hello'') =
     (\<lparr>status = 500, body = MessageBody ''Failed to send message''\<rparr>,
      exWorld\<lparr>db := (db exWorld)\<lparr>messages := messages (db exWorld) @ [?um]\<rparr>,
        requests := requests exWorld @ [completionParams ''hello'' []]\<rparr>)"
    using provider_failure_or_empty_completion [OF b1 h2 h3 h4 h5 b6 b7 b8 b9 refl,
        of _ "Some 2147483648" "Some []" "[]"] b
    by blast
  from c1 c2 c3 show ?thesis by blast
qed

text \<open>
  Claim C1 as stated fails on an empty completion: the provider returns the empty string,
  the handler answers 200 and an assistant message with empty content is stored.
\<close>

theorem empty_completion_counterexample:
  "completion_api exEnvEmpty (completionParams ''hello'' []) = ApiResponse [Some []] None \<and>
   fst (postMessage exEnvEmpty exWorld ''alice'' exCid (JSString ''hello'')) =
     \<lparr>status = 200,
      body = SentBody
        \<lparr>msg_id = ''a0000000-0000-4000-8000-000000000000'',
         msg_conversationId = ''c0000000-0000-4000-8000-000000000001'', msg_role = User,
         msg_content = ''hello'', msg_model = None, msg_tokenCount = None,
         msg_createdAt = 20\<rparr>
        \<lparr>msg_id = ''b0000000-0000-4000-8000-000000000000'',
         msg_conversationId = ''c0000000-0000-4000-8000-000000000001'',
         msg_role = Assistant, msg_content = [], msg_model = Some ''gpt-4o'',
         msg_tokenCount = None, msg_createdAt = 21\<rparr>\<rparr> \<and>
   messages (db (snd (postMessage exEnvEmpty exWorld ''alice'' exCid (JSString ''hello'')))) =
     [\<lparr>msg_id = ''a0000000-0000-4000-8000-000000000000'',
       msg_conversationId = ''c0000000-0000-4000-8000-000000000001'', msg_role = User,
       msg_content = ''hello'', msg_model = None, msg_tokenCount = None, msg_createdAt = 20\<rparr>,
      \<lparr>msg_id = ''b0000000-0000-4000-8000-000000000000'',
       msg_conversationId = ''c0000000-0000-4000-8000-000000000001'',
       msg_role = Assistant, msg_content = [], msg_model = Some ''gpt-4o'',
       msg_tokenCount = None, msg_createdAt = 21\<rparr>]"
  by code_simp

subsection \<open>The title\<close>







section \<open>Two submissions to one conversation\<close>

subsection \<open>A handler that runs alone is the handler function\<close>

lemma run_Done [simp]: "run n env w (Done r) = (w, Done r)"
  by (induction n) simp_all

lemma World_keep:
  "w\<lparr>db := d, requests := requests w\<rparr> = w\<lparr>db := d\<rparr>"
  "w\<lparr>requests := requests w, db := d\<rparr> = w\<lparr>db := d\<rparr>"
  by (rule World.equality, simp_all)+

lemma run_update:
  "run (Suc n) env w (TitleGenerated u c um am title) =
     (case updateConversation (engine env) (db w) c u
             \<lparr>upd_title = Some title, upd_model = None\<rparr> (title_time env) of
        Inl e \<Rightarrow> (w, Done failedToSend)
      | Inr (updated, d3) \<Rightarrow>
          (snd (notifyAndAnswer (w\<lparr>db := d3\<rparr>) c um am),
           Done (fst (notifyAndAnswer (w\<lparr>db := d3\<rparr>) c um am))))"
  by (simp add: notifyAndAnswer_def split: sum.splits prod.splits)

lemma run_finish:
  "run (Suc (Suc (Suc n))) env w (Generated u c s um msgs r) =
     (case addMessage (engine env) (db w)
             \<lparr>ins_conversationId = c, ins_role = Assistant,
              ins_content = gen_content r, ins_model = Some (gen_model r),
              ins_tokenCount = gen_tokenCount r\<rparr>
             (ai_msg_id env) (ai_msg_time env) of
        Inl e \<Rightarrow> (w, Done failedToSend)
      | Inr (am, d2) \<Rightarrow>
          (snd (finishExchange env (w\<lparr>db := d2\<rparr>) u c s msgs um r am),
           Done (fst (finishExchange env (w\<lparr>db := d2\<rparr>) u c s msgs um r am))))"
proof (cases "addMessage (engine env) (db w)
             \<lparr>ins_conversationId = c, ins_role = Assistant,
              ins_content = gen_content r, ins_model = Some (gen_model r),
              ins_tokenCount = gen_tokenCount r\<rparr>
             (ai_msg_id env) (ai_msg_time env)")
  case (Inl e)
  then show ?thesis by simp
next
  case (Inr res)
  obtain am d2 where res: "res = (am, d2)" by (cases res)
  show ?thesis
  proof (cases "length msgs = 1")
    case False
    with Inr res show ?thesis
      by (simp add: finishExchange_def notifyAndAnswer_def)
  next
    case True
    show ?thesis
    proof (cases "s = []")
      case e: True
      have g: "generateTitle (title_api env) (requests w)
                 [\<lparr>chat_role = User, chat_content = s\<rparr>,
                  \<lparr>chat_role = Assistant, chat_content = gen_content r\<rparr>] =
               (''New Conversation'', requests w)"
        using e by (simp add: generateTitle_def)
      have st: "run (Suc (Suc (Suc n))) env w (Generated u c s um msgs r) =
            run (Suc (Suc n)) env (w\<lparr>db := d2\<rparr>)
              (TitleGenerated u c um am ''New Conversation'')"
        using Inr res True e by simp
      show ?thesis
      proof (cases "updateConversation (engine env) d2 c u
                      \<lparr>upd_title = Some ''New Conversation'', upd_model = None\<rparr>
                      (title_time env)")
        case (Inl err)
        show ?thesis
          unfolding st using Inl Inr res True g
          by (simp add: finishExchange_def World_keep)
      next
        case upd: (Inr res2)
        obtain updated d3 where "res2 = (updated, d3)" by (cases res2)
        with upd show ?thesis
          unfolding st using Inr res True g
          by (simp add: finishExchange_def notifyAndAnswer_def World_keep)
      qed
    next
      case ne: False
      have g: "generateTitle (title_api env) (requests w)
                 [\<lparr>chat_role = User, chat_content = s\<rparr>,
                  \<lparr>chat_role = Assistant, chat_content = gen_content r\<rparr>] =
               (readTitle (title_api env (titleParams s)), requests w @ [titleParams s])"
        using ne by (simp add: generateTitle_first)
      have st: "run (Suc (Suc (Suc n))) env w (Generated u c s um msgs r) =
            run (Suc n) env (w\<lparr>db := d2, requests := requests w @ [titleParams s]\<rparr>)
              (TitleGenerated u c um am (readTitle (title_api env (titleParams s))))"
        using Inr res True ne by simp
      show ?thesis
      proof (cases "updateConversation (engine env) d2 c u
                      \<lparr>upd_title = Some (readTitle (title_api env (titleParams s))),
                       upd_model = None\<rparr> (title_time env)")
        case (Inl err)
        show ?thesis
          unfolding st using Inl Inr res True g
          by (simp add: finishExchange_def)
      next
        case upd: (Inr res2)
        obtain updated d3 where "res2 = (updated, d3)" by (cases res2)
        with upd show ?thesis
          unfolding st using Inr res True g
          by (simp add: finishExchange_def notifyAndAnswer_def World_swap)
      qed
    qed
  qed
qed

lemma run_generate:
  "run (Suc (Suc (Suc (Suc (Suc (Suc n)))))) env w (UserPersisted u c s um) =
     (snd (generateAndStore env w u c s um), Done (fst (generateAndStore env w u c s um)))"
proof (cases "getConversation (engine env) (db w) c u")
  case (Inl e)
  then show ?thesis by (simp add: generateAndStore_def getConversationMessages_def)
next
  case (Inr found)
  show ?thesis
  proof (cases found)
    case None
    with Inr show ?thesis by (simp add: generateAndStore_def getConversationMessages_def)
  next
    case (Some conv)
    show ?thesis
    proof (cases "selectMessages (engine env) (db w) c")
      case (Inl e)
      with Inr Some show ?thesis
        by (simp add: generateAndStore_def getConversationMessages_def)
    next
      case sel: (Inr msgs)
      let ?h = "map toChatMessage (filter (\<lambda>m. msg_id m \<noteq> msg_id um) msgs)"
      let ?p = "completionParams s ?h"
      let ?w1 = "w\<lparr>requests := requests w @ [?p]\<rparr>"
      have m: "getConversationMessages (engine env) (db w) c u = Inr msgs"
        using Inr Some sel by (simp add: getConversationMessages_def)
      have r: "run (Suc (Suc (Suc (Suc (Suc (Suc n)))))) env w (UserPersisted u c s um) =
               run (Suc (Suc (Suc (Suc n)))) env ?w1 (Generating u c s um msgs ?p)"
        using Inr Some sel by (simp add: Let_def)
      show ?thesis
      proof (cases "readCompletion ?p (completion_api env ?p)")
        case (Inl e)
        then show ?thesis
          unfolding r by (simp add: generateAndStore_def m generateResponse_eq)
      next
        case gen: (Inr ai)
        have "run (Suc (Suc (Suc (Suc n)))) env ?w1 (Generating u c s um msgs ?p) =
              run (Suc (Suc (Suc n))) env ?w1 (Generated u c s um msgs ai)"
          using gen by simp
        then show ?thesis
          unfolding r run_finish using gen
          by (simp add: generateAndStore_def m generateResponse_eq
                split: sum.splits prod.splits)
      qed
    qed
  qed
qed

lemma eight: "(8::nat) = Suc (Suc (Suc (Suc (Suc (Suc (Suc (Suc 0)))))))"
  by simp

lemma run_refines:
  "run 8 env w (Received u c content) =
     (snd (postMessage env w u c content), Done (fst (postMessage env w u c content)))"
proof -
  have "run (Suc (Suc (Suc (Suc (Suc (Suc (Suc (Suc 0)))))))) env w (Received u c content) =
     (snd (postMessage env w u c content), Done (fst (postMessage env w u c content)))"
  proof (cases "getConversation (engine env) (db w) c u")
    case (Inl e)
    then show ?thesis by (simp add: postMessage_def)
  next
    case (Inr found)
    show ?thesis
    proof (cases found)
      case None
      with Inr show ?thesis by (simp add: postMessage_def)
    next
      case (Some conv)
      show ?thesis
      proof (cases "\<not> truthy content \<or> typeof content \<noteq> ''string''")
        case True
        with Inr Some show ?thesis by (simp add: postMessage_def)
      next
        case False
        show ?thesis
        proof (cases "addMessage (engine env) (db w)
                      \<lparr>ins_conversationId = c, ins_role = User,
                       ins_content = stringOf content, ins_model = None,
                       ins_tokenCount = None\<rparr>
                      (user_msg_id env) (user_msg_time env)")
          case (Inl err)
          with Inr Some False show ?thesis by (simp add: postMessage_def)
        next
          case add: (Inr res)
          obtain um d1 where "res = (um, d1)" by (cases res)
          with Inr Some False add show ?thesis
            using run_generate [of 0 env "w\<lparr>db := d1\<rparr>" u c "stringOf content" um]
            by (simp add: postMessage_def)
        qed
      qed
    qed
  qed
  then show ?thesis by (simp only: eight)
qed

lemma interleave_first:
  "interleave (replicate n True @ schedule) env1 env2 w t1 t2 =
     (case run n env1 w t1 of (w', t1') \<Rightarrow> interleave schedule env1 env2 w' t1' t2)"
  by (induction n arbitrary: w t1) (simp_all split: prod.splits)

lemma interleave_second:
  "interleave (replicate n False) env1 env2 w t1 t2 =
     (case run n env2 w t2 of (w', t2') \<Rightarrow> (w', t1, t2'))"
  by (induction n arbitrary: w t2) (simp_all split: prod.splits)

lemma interleave_sequential:
  "interleave (replicate 8 True @ replicate 8 False) env1 env2 w
     (Received u1 c1 b1) (Received u2 c2 b2) =
   (snd (postMessage env2 (snd (postMessage env1 w u1 c1 b1)) u2 c2 b2),
    Done (fst (postMessage env1 w u1 c1 b1)),
    Done (fst (postMessage env2 (snd (postMessage env1 w u1 c1 b1)) u2 c2 b2)))"
  by (simp only: interleave_first interleave_second run_refines prod.case)

subsection \<open>What an answer 200 tells\<close>

lemma content_string:
  assumes "\<not> (\<not> truthy content \<or> typeof content \<noteq> ''string'')"
  shows "\<exists>s. content = JSString s \<and> s \<noteq> []"
  using assms by (cases content) (simp_all add: truthy_def typeof_def)

lemma postMessage_sent:
  assumes "postMessage env w u c content = (\<lparr>status = 200, body = SentBody x y\<rparr>, w')"
  shows "\<exists>cid s. content = JSString s \<and> s \<noteq> [] \<and> validText s \<and>
           uuid_in (engine env) c = Some cid \<and> validText u \<and>
           (\<exists>conv \<in> set (conversations (db w)). conv_id conv = cid \<and> conv_userId conv = u) \<and>
           x = \<lparr>msg_id = user_msg_id env, msg_conversationId = cid, msg_role = User,
                msg_content = s, msg_model = None, msg_tokenCount = None,
                msg_createdAt = user_msg_time env\<rparr> \<and>
           msg_id y = ai_msg_id env \<and> msg_conversationId y = cid \<and>
           msg_role y = Assistant \<and> msg_createdAt y = ai_msg_time env \<and>
           messages (db w') = messages (db w) @ [x, y] \<and>
           map (\<lambda>cv. (conv_id cv, conv_userId cv)) (conversations (db w')) =
           map (\<lambda>cv. (conv_id cv, conv_userId cv)) (conversations (db w))"
proof (cases "getConversation (engine env) (db w) c u")
  case (Inl e)
  with assms show ?thesis by (simp add: postMessage_def failedToSend_def)
next
  case (Inr found)
  show ?thesis
  proof (cases found)
    case None
    with Inr assms show ?thesis by (simp add: postMessage_def)
  next
    case (Some conv)
    then have "\<exists>conv. getConversation (engine env) (db w) c u = Inr (Some conv)"
      using Inr by simp
    then obtain cid where uu: "uuid_in (engine env) c = Some cid" and vu: "validText u"
      and ex: "\<exists>conv \<in> set (conversations (db w)). conv_id conv = cid \<and> conv_userId conv = u"
      using getConversation_Some_iff [of "engine env" "db w" c u] by blast
    show ?thesis
    proof (cases "\<not> truthy content \<or> typeof content \<noteq> ''string''")
      case True
      with Inr Some assms show ?thesis by (simp add: postMessage_def)
    next
      case False
      then obtain s where s: "content = JSString s" "s \<noteq> []"
        using content_string by blast
      show ?thesis
      proof (cases "addMessage (engine env) (db w)
                      \<lparr>ins_conversationId = c, ins_role = User, ins_content = s,
                       ins_model = None, ins_tokenCount = None\<rparr>
                      (user_msg_id env) (user_msg_time env)")
        case (Inl e)
        with Inr Some False s assms show ?thesis
          by (simp add: postMessage_def stringOf_def failedToSend_def)
      next
        case add: (Inr res)
        obtain um d1 where res: "res = (um, d1)" by (cases res)
        from add res uu have vs: "validText s"
          and um: "um = \<lparr>msg_id = user_msg_id env, msg_conversationId = cid, msg_role = User,
                msg_content = s, msg_model = None, msg_tokenCount = None,
                msg_createdAt = user_msg_time env\<rparr>"
          and d1: "d1 = (db w)\<lparr>messages := messages (db w) @ [um]\<rparr>"
          by (auto simp: addMessage_Inr_iff)
        let ?w0 = "w\<lparr>db := d1\<rparr>"
        let ?msgs = "order_rows (engine env)
                       (filter (\<lambda>m. msg_conversationId m = cid) (messages (db ?w0)))"
        let ?h = "map (\<lambda>m. \<lparr>chat_role = msg_role m, chat_content = msg_content m\<rparr>)
                    (filter (\<lambda>m. msg_id m \<noteq> msg_id um) ?msgs)"
        let ?p = "completionParams s ?h"
        let ?w1 = "?w0\<lparr>requests := requests ?w0 @ [?p]\<rparr>"
        have g: "generateAndStore env ?w0 u c s um =
                   (\<lparr>status = 200, body = SentBody x y\<rparr>, w')"
          using Inr Some False s add res assms by (simp add: postMessage_def stringOf_def)
        have ex0: "\<exists>conv \<in> set (conversations (db ?w0)).
                     conv_id conv = cid \<and> conv_userId conv = u"
          using ex by (simp add: d1)
        note rd = generateAndStore_read [OF uu vu ex0 refl refl refl refl, of s um]
        show ?thesis
        proof (cases "readCompletion ?p (completion_api env ?p)")
          case (Inl e)
          with g show ?thesis unfolding rd by (simp add: failedToSend_def)
        next
          case gen: (Inr r)
          show ?thesis
          proof (cases "addMessage (engine env) (db ?w0)
                          \<lparr>ins_conversationId = c, ins_role = Assistant,
                           ins_content = gen_content r, ins_model = Some (gen_model r),
                           ins_tokenCount = gen_tokenCount r\<rparr>
                          (ai_msg_id env) (ai_msg_time env)")
            case (Inl e)
            with g gen show ?thesis unfolding rd by (simp add: failedToSend_def)
          next
            case add2: (Inr res2)
            obtain am d2 where res2: "res2 = (am, d2)" by (cases res2)
            from add2 res2 uu have
              am: "am = \<lparr>msg_id = ai_msg_id env, msg_conversationId = cid,
                         msg_role = Assistant, msg_content = gen_content r,
                         msg_model = Some (gen_model r), msg_tokenCount = gen_tokenCount r,
                         msg_createdAt = ai_msg_time env\<rparr>"
              and d2: "d2 = (db ?w0)\<lparr>messages := messages (db ?w0) @ [am]\<rparr>"
              by (auto simp: addMessage_Inr_iff)
            have "finishExchange env (?w1\<lparr>db := d2\<rparr>) u c s ?msgs um r am =
                    (\<lparr>status = 200, body = SentBody x y\<rparr>, w')"
              using g gen add2 res2 unfolding rd by simp
            from finishExchange_sent [OF this]
            have k: "x = um \<and> y = am \<and> messages (db w') = messages d2 \<and>
                     map (\<lambda>cv. (conv_id cv, conv_userId cv)) (conversations (db w')) =
                     map (\<lambda>cv. (conv_id cv, conv_userId cv)) (conversations d2)"
              by simp
            have "messages d2 = messages (db w) @ [um, am]"
              and "conversations d2 = conversations (db w)"
              by (simp_all add: d2 d1)
            with k s vs uu vu ex um am show ?thesis by simp
          qed
        qed
      qed
    qed
  qed
qed

subsection \<open>One submission after the other\<close>

text \<open>
  Claim C4, as the code has it. The handler takes no lock; submissions to one
  conversation are serialized only when the caller waits. Let the first submission run
  to its end before the second starts (the schedule gives the first handler its eight
  steps, then the second), let the first be answered 200 with the pair \<open>um1\<close>, \<open>am1\<close>,
  let the second be acceptable, let both use the same database, which returns rows as
  \<^verbatim>\<open>ORDER BY\<close> promises, and let the timestamp of \<open>am1\<close> be strictly later than
  those of the conversation's other messages. Then the second handler's completion
  request follows the first handler's requests in the provider's log, and its history
  ends with the first run's assistant message.
\<close>

theorem sequential_history_includes_reply:
  assumes "postMessage env1 w u c (JSString s1) =
             (\<lparr>status = 200, body = SentBody um1 am1\<rparr>, w1)"
    "engine env2 = engine env1"
    "\<forall>rows. mset (order_rows (engine env2) rows) = mset rows
       \<and> sorted (map msg_createdAt (order_rows (engine env2) rows))"
    "s2 \<noteq> []" "validText s2"
    "user_msg_id env2 \<notin> set (map msg_id (messages (db w1)))"
    "\<forall>m \<in> set (messages (db w)).
       msg_conversationId m = msg_conversationId am1 \<longrightarrow> msg_createdAt m < msg_createdAt am1"
    "msg_createdAt um1 < msg_createdAt am1"
  shows "\<exists>w' r2 hist rest.
           interleave (replicate 8 True @ replicate 8 False) env1 env2 w
             (Received u c (JSString s1)) (Received u c (JSString s2)) =
           (w', Done \<lparr>status = 200, body = SentBody um1 am1\<rparr>, Done r2) \<and>
           requests w' =
             requests w1 @
             \<lparr>p_model = model (getModelAndPrompt s2),
              p_messages =
                (case systemPrompt (getModelAndPrompt s2) of
                   None \<Rightarrow> []
                 | Some p \<Rightarrow> if p = [] then [] else [\<lparr>chat_role = System, chat_content = p\<rparr>])
                @ hist
                @ [\<lparr>chat_role = User, chat_content = cleanedMessage (getModelAndPrompt s2)\<rparr>],
              p_temperature_tenths = 7, p_max_tokens = 4000\<rparr> # rest \<and>
           hist \<noteq> [] \<and>
           last hist = \<lparr>chat_role = Assistant, chat_content = msg_content am1\<rparr>"
proof -
  let ?g = "\<lambda>m. \<lparr>chat_role = msg_role m, chat_content = msg_content m\<rparr>"
  let ?f = "\<lambda>cv. (conv_id cv, conv_userId cv)"
  obtain cid where uu: "uuid_in (engine env1) c = Some cid" and vu: "validText u"
    and ex: "\<exists>conv \<in> set (conversations (db w)). conv_id conv = cid \<and> conv_userId conv = u"
    and c1: "msg_conversationId um1 = cid" and ca: "msg_conversationId am1 = cid"
    and ra: "msg_role am1 = Assistant"
    and ms: "messages (db w1) = messages (db w) @ [um1, am1]"
    and cv: "map ?f (conversations (db w1)) = map ?f (conversations (db w))"
    using postMessage_sent [OF assms(1)] by auto
  have u2: "uuid_in (engine env2) c = Some cid" by (simp add: assms(2) uu)
  have "(cid, u) \<in> set (map ?f (conversations (db w)))" using ex by auto
  then have "(cid, u) \<in> set (map ?f (conversations (db w1)))" by (simp only: cv)
  then have ex1: "\<exists>conv \<in> set (conversations (db w1)).
                    conv_id conv = cid \<and> conv_userId conv = u"
    by auto
  let ?rows = "filter (\<lambda>m. msg_conversationId m = cid) (messages (db w1))"
  let ?um2 = "\<lparr>msg_id = user_msg_id env2, msg_conversationId = cid, msg_role = User,
               msg_content = s2, msg_model = None, msg_tokenCount = None,
               msg_createdAt = user_msg_time env2\<rparr>"
  let ?lg = "filter (\<lambda>m. msg_id m \<noteq> user_msg_id env2)
               (order_rows (engine env2) (?rows @ [?um2]))"
  have fresh: "user_msg_id env2 \<notin> set (map msg_id ?rows)"
    using assms(6) by auto
  have lg: "mset ?lg = mset ?rows \<and> sorted (map msg_createdAt ?lg)"
    by (rule log_without_new_row [OF assms(3) fresh]) simp_all
  then have set_lg: "set ?lg = set ?rows" by (metis set_mset_mset)
  have "am1 \<in> set ?rows" by (simp add: ms ca)
  then have mem: "am1 \<in> set ?lg" by (simp only: set_lg)
  have late: "\<forall>y \<in> set ?lg. y \<noteq> am1 \<longrightarrow> msg_createdAt y < msg_createdAt am1"
  proof (intro ballI impI)
    fix y assume y: "y \<in> set ?lg" and n: "y \<noteq> am1"
    from y have "y \<in> set ?rows" by (simp only: set_lg)
    then have a: "msg_conversationId y = cid" and b: "y \<in> set (messages (db w1))"
      by simp_all
    from b have "y \<in> set (messages (db w)) \<or> y = um1 \<or> y = am1"
      unfolding ms by auto
    with n have "y \<in> set (messages (db w)) \<or> y = um1" by simp
    then show "msg_createdAt y < msg_createdAt am1"
      using assms(7,8) ca a by auto
  qed
  have lst: "last ?lg = am1"
    using lg mem late by (intro latest_is_last) simp_all
  have ne: "?lg \<noteq> []"
  proof
    assume "?lg = []"
    with mem show False by (simp only: list.set(1) empty_iff)
  qed
  let ?hist = "map ?g (drop (length ?lg - 10) ?lg)"
  have hne: "?hist \<noteq> []" using last_window [OF ne] by simp
  have "last ?hist = ?g (last (drop (length ?lg - 10) ?lg))"
    using last_window [OF ne] by (simp add: last_map)
  then have hl: "last ?hist = \<lparr>chat_role = Assistant, chat_content = msg_content am1\<rparr>"
    using last_window [OF ne] lst ra by simp
  obtain rest where
    "requests (snd (postMessage env2 w1 u c (JSString s2))) =
       requests w1 @ completionParams s2 (map ?g ?lg) # rest"
    using postMessage_requests [OF u2 vu ex1 assms(4) assms(5) assms(6) refl refl refl] by blast
  then have rq: "requests (snd (postMessage env2 w1 u c (JSString s2))) =
             requests w1 @
             \<lparr>p_model = model (getModelAndPrompt s2),
              p_messages =
                (case systemPrompt (getModelAndPrompt s2) of
                   None \<Rightarrow> []
                 | Some p \<Rightarrow> if p = [] then [] else [\<lparr>chat_role = System, chat_content = p\<rparr>])
                @ ?hist
                @ [\<lparr>chat_role = User, chat_content = cleanedMessage (getModelAndPrompt s2)\<rparr>],
              p_temperature_tenths = 7, p_max_tokens = 4000\<rparr> # rest"
    by (simp add: completionParams_eq drop_map)
  have il: "interleave (replicate 8 True @ replicate 8 False) env1 env2 w
             (Received u c (JSString s1)) (Received u c (JSString s2)) =
           (snd (postMessage env2 w1 u c (JSString s2)),
            Done \<lparr>status = 200, body = SentBody um1 am1\<rparr>,
            Done (fst (postMessage env2 w1 u c (JSString s2))))"
    unfolding interleave_sequential by (simp add: assms(1))
  from il rq hne hl show ?thesis by blast
qed

theorem sequential_history_includes_reply_witness:
  "(\<exists>w' r2 hist rest.
     interleave (replicate 8 True @ replicate 8 False) exEnv1 exEnv3 exWorld
       (Received ''alice'' exCid (JSString ''first''))
       (Received ''alice'' exCid (JSString ''second'')) =
     (w', Done \<lparr>status = 200,
                body = SentBody
                  \<lparr>msg_id = ''a0000000-0000-4000-8000-000000000001'',
                   msg_conversationId = exCid, msg_role = User, msg_content = ''first'',
                   msg_model = None, msg_tokenCount = None, msg_createdAt = 1\<rparr>
                  \<lparr>msg_id = ''b0000000-0000-4000-8000-000000000001'',
                   msg_conversationId = exCid, msg_role = Assistant,
                   msg_content = ''answer one'', msg_model = Some ''gpt-4o'',
                   msg_tokenCount = None, msg_createdAt = 4\<rparr>\<rparr>, Done r2) \<and>
     requests w' =
       requests (snd (postMessage exEnv1 exWorld ''alice'' exCid (JSString ''first''))) @
       \<lparr>p_model = model (getModelAndPrompt ''second''),
        p_messages =
          (case systemPrompt (getModelAndPrompt ''second'') of
             None \<Rightarrow> []
           | Some p \<Rightarrow> if p = [] then [] else [\<lparr>chat_role = System, chat_content = p\<rparr>])
          @ hist
          @ [\<lparr>chat_role = User, chat_content = cleanedMessage (getModelAndPrompt ''second'')\<rparr>],
        p_temperature_tenths = 7, p_max_tokens = 4000\<rparr> # rest \<and>
     hist \<noteq> [] \<and>
     last hist = \<lparr>chat_role = Assistant, chat_content = ''answer one''\<rparr>) \<and>
   requests (fst (interleave (replicate 8 True @ replicate 8 False) exEnv1 exEnv3 exWorld
       (Received ''alice'' exCid (JSString ''first''))
       (Received ''alice'' exCid (JSString ''second'')))) =
     [\<lparr>p_model = ''gpt-4o'',
       p_messages = [\<lparr>chat_role = User, chat_content = ''first''\<rparr>],
       p_temperature_tenths = 7, p_max_tokens = 4000\<rparr>,
      titleParams ''first'',
      \<lparr>p_model = ''gpt-4o'',
       p_messages = [\<lparr>chat_role = User, chat_content = ''first''\<rparr>,
                     \<lparr>chat_role = Assistant, chat_content = ''answer one''\<rparr>,
                     \<lparr>chat_role = User, chat_content = ''second''\<rparr>],
       p_temperature_tenths = 7, p_max_tokens = 4000\<rparr>]"
proof -
  let ?um = "\<lparr>msg_id = ''a0000000-0000-4000-8000-000000000001'',
              msg_conversationId = exCid, msg_role = User, msg_content = ''first'',
              msg_model = None, msg_tokenCount = None, msg_createdAt = 1\<rparr>"
  let ?am = "\<lparr>msg_id = ''b0000000-0000-4000-8000-000000000001'',
              msg_conversationId = exCid, msg_role = Assistant,
              msg_content = ''answer one'', msg_model = Some ''gpt-4o'',
              msg_tokenCount = None, msg_createdAt = 4\<rparr>"
  let ?w1 = "snd (postMessage exEnv1 exWorld ''alice'' exCid (JSString ''first''))"
  have "fst (postMessage exEnv1 exWorld ''alice'' exCid (JSString ''first'')) =
          \<lparr>status = 200, body = SentBody ?um ?am\<rparr>"
    by code_simp
  then have h1: "postMessage exEnv1 exWorld ''alice'' exCid (JSString ''first'') =
                   (\<lparr>status = 200, body = SentBody ?um ?am\<rparr>, ?w1)"
    by (metis prod.collapse)
  have h2: "engine exEnv3 = engine exEnv1"
    by (simp add: exEnv3_def exEnv2_def exEnv1_def)
  have h3: "\<forall>rows. mset (order_rows (engine exEnv3) rows) = mset rows
       \<and> sorted (map msg_createdAt (order_rows (engine exEnv3) rows))"
    by (simp add: exEnv3_def exEnv2_def exEngine_def)
  have h4: "''second'' \<noteq> []" by simp
  have h5: "validText ''second''" by (simp add: validText_def)
  have h6: "user_msg_id exEnv3 \<notin> set (map msg_id (messages (db ?w1)))" by code_simp
  have h7: "\<forall>m \<in> set (messages (db exWorld)).
       msg_conversationId m = msg_conversationId ?am \<longrightarrow> msg_createdAt m < msg_createdAt ?am"
    by (simp add: exWorld_def)
  have h8: "msg_createdAt ?um < msg_createdAt ?am" by simp
  have l: "requests (fst (interleave (replicate 8 True @ replicate 8 False) exEnv1 exEnv3 exWorld
       (Received ''alice'' exCid (JSString ''first''))
       (Received ''alice'' exCid (JSString ''second'')))) =
     [\<lparr>p_model = ''gpt-4o'',
       p_messages = [\<lparr>chat_role = User, chat_content = ''first''\<rparr>],
       p_temperature_tenths = 7, p_max_tokens = 4000\<rparr>,
      titleParams ''first'',
      \<lparr>p_model = ''gpt-4o'',
       p_messages = [\<lparr>chat_role = User, chat_content = ''first''\<rparr>,
                     \<lparr>chat_role = Assistant, chat_content = ''answer one''\<rparr>,
                     \<lparr>chat_role = User, chat_content = ''second''\<rparr>],
       p_temperature_tenths = 7, p_max_tokens = 4000\<rparr>]"
    by code_simp
  show ?thesis
    using sequential_history_includes_reply [OF h1 h2 h3 h4 h5 h6 h7 h8] l by simp
qed

text \<open>
  Claim C4 as stated fails: in \<open>exRace\<close> the second submission arrives while the first
  awaits its completion, so two generations are in flight. Both handlers answer 200. The
  provider receives the first completion request, then the second, then the first
  handler's title request; the history of the second completion request is the first
  run's user message alone, without the first run's assistant message.
\<close>

theorem race_counterexample:
  "snd exRace =
     (Done \<lparr>status = 200,
        body = SentBody
          \<lparr>msg_id = ''a0000000-0000-4000-8000-000000000001'',
           msg_conversationId = ''c0000000-0000-4000-8000-000000000001'', msg_role = User,
           msg_content = ''first'', msg_model = None, msg_tokenCount = None,
           msg_createdAt = 1\<rparr>
          \<lparr>msg_id = ''b0000000-0000-4000-8000-000000000001'',
           msg_conversationId = ''c0000000-0000-4000-8000-000000000001'',
           msg_role = Assistant, msg_content = ''answer one'', msg_model = Some ''gpt-4o'',
           msg_tokenCount = None, msg_createdAt = 4\<rparr>\<rparr>,
      Done \<lparr>status = 200,
        body = SentBody
          \<lparr>msg_id = ''a0000000-0000-4000-8000-000000000002'',
           msg_conversationId = ''c0000000-0000-4000-8000-000000000001'', msg_role = User,
           msg_content = ''second'', msg_model = None, msg_tokenCount = None,
           msg_createdAt = 2\<rparr>
          \<lparr>msg_id = ''b0000000-0000-4000-8000-000000000002'',
           msg_conversationId = ''c0000000-0000-4000-8000-000000000001'',
           msg_role = Assistant, msg_content = ''answer two'', msg_model = Some ''gpt-4o'',
           msg_tokenCount = None, msg_createdAt = 6\<rparr>\<rparr>) \<and>
   requests (fst exRace) =
     [\<lparr>p_model = ''gpt-4o'',
       p_messages = [\<lparr>chat_role = User, chat_content = ''first''\<rparr>],
       p_temperature_tenths = 7, p_max_tokens = 4000\<rparr>,
      \<lparr>p_model = ''gpt-4o'',
       p_messages = [\<lparr>chat_role = User, chat_content = ''first''\<rparr>,
                     \<lparr>chat_role = User, chat_content = ''second''\<rparr>],
       p_temperature_tenths = 7, p_max_tokens = 4000\<rparr>,
      titleParams ''first''] \<and>
   \<lparr>chat_role = Assistant, chat_content = ''answer one''\<rparr> \<notin>
     set (p_messages (requests (fst exRace) ! 1))"
  by code_simp

end
